theory Spec2Isabelle
  imports Main
begin

section \<open>Data model\<close>

text \<open>
  Every failure of the translation layer is a \<^verbatim>\<open>throw new Error(msg)\<close>; the model keeps
  the message, so that a result \<open>Inl (Error msg)\<close> says which throw was taken.
  JavaScript strings are modelled as \<open>string\<close> (characters below 256).
\<close>

datatype error = Error string

datatype json =
    JNull
  | JBool bool
  | JNum int
  | JStr string
  | JArr "json list"
  | JObj "(string \<times> json) list"

text \<open>A \<^verbatim>\<open>Record<string, unknown>\<close>; a key whose value is \<^verbatim>\<open>undefined\<close> is an absent key.\<close>

type_synonym metadata = "string \<rightharpoonup> json"

text \<open>The \<^verbatim>\<open>image_url\<close> field of a block: a string, or an object that may have a \<^verbatim>\<open>url\<close>.\<close>

datatype image_url = ImageUrlString string | ImageUrlObject "string option"

text \<open>
  A content block of \<^verbatim>\<open>MessageContent\<close>: its \<^verbatim>\<open>type\<close> tag and the optional fields the
  codecs read or write (\<open>None\<close>: the field is absent or not a string).
\<close>

record block =
  block_type :: string
  block_text :: "string option"
  block_reasoning :: "string option"
  block_image_url :: "image_url option"
  block_index :: "nat option"

datatype content = Str string | Blocks "block list"

record tool_call =
  tc_name :: string
  tc_args :: json
  tc_id :: "string option"

text \<open>
  The message classes of the canonical representation. \<open>AIMessage\<close> carries its content,
  its \<^verbatim>\<open>tool_calls\<close> and its \<^verbatim>\<open>response_metadata\<close>; \<open>ToolMessage\<close> its content, \<^verbatim>\<open>name\<close>,
  \<^verbatim>\<open>tool_call_id\<close> and \<^verbatim>\<open>status\<close>; \<open>ChatMessage\<close> its \<^verbatim>\<open>role\<close>; \<open>OtherMessage\<close> is any
  other subclass of \<^verbatim>\<open>BaseMessage\<close>, with its \<^verbatim>\<open>type\<close>.
\<close>

datatype message =
    SystemMessage content
  | HumanMessage content
  | AIMessage content "tool_call list" metadata
  | ToolMessage content "string option" string "string option"
  | ChatMessage content string
  | OtherMessage content string

fun message_content :: "message \<Rightarrow> content" where
  "message_content (SystemMessage c) = c"
| "message_content (HumanMessage c) = c"
| "message_content (AIMessage c tcs md) = c"
| "message_content (ToolMessage c n i s) = c"
| "message_content (ChatMessage c r) = c"
| "message_content (OtherMessage c t) = c"

fun isSystemMessage :: "message \<Rightarrow> bool" where
  "isSystemMessage (SystemMessage c) = True"
| "isSystemMessage m = False"

fun isAIMessage :: "message \<Rightarrow> bool" where
  "isAIMessage (AIMessage c tcs md) = True"
| "isAIMessage m = False"

subsection \<open>Wire shapes of the standard protocol\<close>

record function_call =
  fc_name :: "string option"
  fc_args :: "json option"
  fc_id :: "string option"

record function_response =
  fr_name :: string
  fr_response_name :: "string option"
  fr_response_content :: content

record part =
  part_text :: "string option"
  part_thought :: "bool option"
  part_inlineData :: "(string \<times> string) option"
  part_fileData :: "(string \<times> string) option"
  part_functionCall :: "function_call option"
  part_functionResponse :: "function_response option"
  part_thoughtSignature :: "string option"
  part_executableCode :: "json option"
  part_codeExecutionResult :: "json option"

definition empty_part :: part where
  "empty_part = \<lparr>part_text = None, part_thought = None, part_inlineData = None,
     part_fileData = None, part_functionCall = None, part_functionResponse = None,
     part_thoughtSignature = None, part_executableCode = None,
     part_codeExecutionResult = None\<rparr>"

record wire_content =
  wc_role :: string
  wc_parts :: "part list"

record google_payload =
  contents :: "wire_content list"
  systemInstruction :: "wire_content option"

subsection \<open>Wire shapes of the interactions protocol\<close>

datatype summary_item = SummaryText string | SummaryOther

datatype tool_result = ResultJson json | ResultContent content

datatype item =
    TextContent "string option"
  | ImageContent "string option" "string option" "string option"
  | FunctionCallContent "string option" string json
  | FunctionResultContent string "string option" tool_result bool
  | ThoughtContent "string option" "summary_item list option"
  | CodeExecutionResultContent json
  | OtherContent string

record turn =
  turn_role :: string
  turn_content :: "item list"

record interaction_payload =
  input :: "turn list"
  system_instruction :: "string option"

section \<open>Strings and the data-URL pattern\<close>

definition startsWith :: "string \<Rightarrow> string \<Rightarrow> bool" where
  "startsWith s p = (take (length p) s = p)"

text \<open>The line terminators that \<^verbatim>\<open>.\<close> of a JavaScript regular expression does not match.\<close>

definition isLineTerminator :: "char \<Rightarrow> bool" where
  "isLineTerminator c = (c = CHR 0x0A \<or> c = CHR 0x0D)"

definition dotPlus :: "string \<Rightarrow> bool" where
  "dotPlus s = (s \<noteq> [] \<and> list_all (\<lambda>c. \<not> isLineTerminator c) s)"

text \<open>
  \<^verbatim>\<open>/^data:(.+);base64,(.+)$/\<close> after the prefix \<^verbatim>\<open>data:\<close>: the first group is greedy, so
  the matcher tries its longest length first and backtracks one character at a time; the
  second group must reach the end of the input.
\<close>

fun matchGroups :: "nat \<Rightarrow> string \<Rightarrow> (string \<times> string) option" where
  "matchGroups 0 r = None"
| "matchGroups (Suc n) r =
     (let a = take (Suc n) r; t = drop (Suc n) r in
      if dotPlus a \<and> startsWith t '';base64,'' \<and> dotPlus (drop 8 t)
      then Some (a, drop 8 t)
      else matchGroups n r)"

definition matchDataUrl :: "string \<Rightarrow> (string \<times> string) option" where
  "matchDataUrl url =
     (if startsWith url ''data:'' then matchGroups (length url - 5) (drop 5 url) else None)"

section \<open>Standard protocol: encoding (message-inputs)\<close>

definition parseBase64Data :: "string \<Rightarrow> error + (string \<times> string)" where
  "parseBase64Data dataUrl =
     (case matchDataUrl dataUrl of
        None \<Rightarrow> Inl (Error ''Invalid base64 image data URL'')
      | Some (mimeType, data) \<Rightarrow> Inr (mimeType, data))"

text \<open>\<^verbatim>\<open>b.image_url\<close> is truthy: an object, or a string that is not empty.\<close>

fun truthy_image_url :: "image_url option \<Rightarrow> bool" where
  "truthy_image_url None = False"
| "truthy_image_url (Some (ImageUrlString s)) = (s \<noteq> [])"
| "truthy_image_url (Some (ImageUrlObject u)) = True"

text \<open>\<^verbatim>\<open>xs.map(f)\<close> where \<open>f\<close> may throw: the first throw ends the map.\<close>

fun mapResult :: "('a \<Rightarrow> error + 'b) \<Rightarrow> 'a list \<Rightarrow> error + 'b list" where
  "mapResult f [] = Inr []"
| "mapResult f (x # xs) =
     (case f x of
        Inl e \<Rightarrow> Inl e
      | Inr y \<Rightarrow> (case mapResult f xs of Inl e \<Rightarrow> Inl e | Inr ys \<Rightarrow> Inr (y # ys)))"

text \<open>The callback of \<^verbatim>\<open>content.map\<close> in \<^verbatim>\<open>convertContentToParts\<close>.\<close>

definition convertBlockToPart :: "block \<Rightarrow> error + part" where
  "convertBlockToPart b =
     (if block_type b = ''text'' \<and> block_text b \<noteq> None then
        Inr (empty_part\<lparr>part_text := block_text b\<rparr>)
      else if block_type b = ''reasoning'' \<and> block_reasoning b \<noteq> None then
        Inr (empty_part\<lparr>part_text := block_reasoning b, part_thought := Some True\<rparr>)
      else if block_type b = ''image_url'' \<and> truthy_image_url (block_image_url b) then
        (case (case block_image_url b of
                 Some (ImageUrlString s) \<Rightarrow> Inr s
               | Some (ImageUrlObject (Some u)) \<Rightarrow> Inr u
               | _ \<Rightarrow> Inl (Error ''Invalid image_url block format'')) of
           Inl e \<Rightarrow> Inl e
         | Inr url \<Rightarrow>
             if startsWith url ''data:'' then
               (case parseBase64Data url of
                  Inl e \<Rightarrow> Inl e
                | Inr (mimeType, data) \<Rightarrow>
                    Inr (empty_part\<lparr>part_inlineData := Some (mimeType, data)\<rparr>))
             else if startsWith url ''gs://'' \<or> startsWith url ''https://'' then
               Inr (empty_part\<lparr>part_fileData := Some (''image/jpeg'', url)\<rparr>)
             else Inl (Error (''Unsupported content block type: '' @ block_type b)))
      else Inl (Error (''Unsupported content block type: '' @ block_type b)))"

fun convertContentToParts :: "content \<Rightarrow> error + part list" where
  "convertContentToParts (Str s) =
     (if s = [] then Inr [] else Inr [empty_part\<lparr>part_text := Some s\<rparr>])"
| "convertContentToParts (Blocks bs) = mapResult convertBlockToPart bs"

definition convertToolCallToPart :: "tool_call \<Rightarrow> part" where
  "convertToolCallToPart toolCall =
     empty_part\<lparr>part_functionCall :=
       Some \<lparr>fc_name = Some (tc_name toolCall), fc_args = Some (tc_args toolCall),
             fc_id = None\<rparr>\<rparr>"

text \<open>\<^verbatim>\<open>message.name || ''\<close>: an absent or empty name gives the empty string.\<close>

definition convertToolMessageToPart :: "content \<Rightarrow> string option \<Rightarrow> part" where
  "convertToolMessageToPart c name =
     empty_part\<lparr>part_functionResponse :=
       Some \<lparr>fr_name = (case name of None \<Rightarrow> [] | Some n \<Rightarrow> n),
             fr_response_name = name, fr_response_content = c\<rparr>\<rparr>"

text \<open>
  The signature step of the loop body of \<^verbatim>\<open>convertMessagesToGooglePayload\<close>: with a
  string under \<^verbatim>\<open>thoughtSignature\<close>, the last part is updated, or a part with empty text
  is pushed when there is no part.
\<close>

definition reinjectThoughtSignature :: "metadata \<Rightarrow> part list \<Rightarrow> part list" where
  "reinjectThoughtSignature md parts =
     (case md ''thoughtSignature'' of
        Some (JStr signature) \<Rightarrow>
          if parts \<noteq> [] then
            butlast parts @ [(last parts)\<lparr>part_thoughtSignature := Some signature\<rparr>]
          else [empty_part\<lparr>part_text := Some [], part_thoughtSignature := Some signature\<rparr>]
      | _ \<Rightarrow> parts)"

text \<open>The parts that the loop body builds for one non-system message, before merging.\<close>

fun messageParts :: "message \<Rightarrow> error + part list" where
  "messageParts (AIMessage c tcs md) =
     (case convertContentToParts c of
        Inl e \<Rightarrow> Inl e
      | Inr ps \<Rightarrow> Inr (reinjectThoughtSignature md (ps @ map convertToolCallToPart tcs)))"
| "messageParts (ToolMessage c name i s) =
     (case convertContentToParts c of
        Inl e \<Rightarrow> Inl e
      | Inr ps \<Rightarrow> Inr (ps @ [convertToolMessageToPart c name]))"
| "messageParts m = convertContentToParts (message_content m)"

definition messageRole :: "message \<Rightarrow> string" where
  "messageRole m = (if isAIMessage m then ''model'' else ''user'')"

text \<open>
  The merge step: when the last entry of \<^verbatim>\<open>contents\<close> has the same role the parts are
  pushed onto it, otherwise a new entry is pushed.
\<close>

definition mergeIntoContents :: "wire_content list \<Rightarrow> string \<Rightarrow> part list \<Rightarrow> wire_content list" where
  "mergeIntoContents cs role parts =
     (if cs \<noteq> [] \<and> wc_role (last cs) = role then
        butlast cs @ [(last cs)\<lparr>wc_parts := wc_parts (last cs) @ parts\<rparr>]
      else cs @ [\<lparr>wc_role = role, wc_parts = parts\<rparr>])"

text \<open>The \<^verbatim>\<open>for\<close> loop over the non-system messages, with \<^verbatim>\<open>contents\<close> as the state.\<close>

fun processChatMessages :: "wire_content list \<Rightarrow> message list \<Rightarrow> error + wire_content list" where
  "processChatMessages cs [] = Inr cs"
| "processChatMessages cs (m # ms) =
     (case messageParts m of
        Inl e \<Rightarrow> Inl e
      | Inr parts \<Rightarrow> processChatMessages (mergeIntoContents cs (messageRole m) parts) ms)"

text \<open>\<^verbatim>\<open>systemMessages.flatMap(msg => convertContentToParts(msg.content))\<close>.\<close>

fun flatMapResult :: "('a \<Rightarrow> error + 'b list) \<Rightarrow> 'a list \<Rightarrow> error + 'b list" where
  "flatMapResult f [] = Inr []"
| "flatMapResult f (x # xs) =
     (case f x of
        Inl e \<Rightarrow> Inl e
      | Inr ys \<Rightarrow> (case flatMapResult f xs of Inl e \<Rightarrow> Inl e | Inr zs \<Rightarrow> Inr (ys @ zs)))"

definition convertMessagesToGooglePayload :: "message list \<Rightarrow> error + google_payload" where
  "convertMessagesToGooglePayload messages =
     (case flatMapResult (\<lambda>msg. convertContentToParts (message_content msg))
             (filter isSystemMessage messages) of
        Inl e \<Rightarrow> Inl e
      | Inr systemParts \<Rightarrow>
          (case processChatMessages [] (filter (\<lambda>msg. \<not> isSystemMessage msg) messages) of
             Inl e \<Rightarrow> Inl e
           | Inr cs \<Rightarrow>
               Inr \<lparr>contents = cs,
                    systemInstruction =
                      (if systemParts \<noteq> [] then
                         Some \<lparr>wc_role = ''system'', wc_parts = systemParts\<rparr>
                       else None)\<rparr>))"

section \<open>Interactions protocol: encoding (interaction-utils)\<close>

text \<open>\<^verbatim>\<open>xs.join(sep)\<close>.\<close>

fun joinWith :: "string \<Rightarrow> string list \<Rightarrow> string" where
  "joinWith sep [] = []"
| "joinWith sep [x] = x"
| "joinWith sep (x # y # ys) = x @ sep @ joinWith sep (y # ys)"

text \<open>
  The callback of \<^verbatim>\<open>content.map\<close> in \<^verbatim>\<open>formatContent\<close>; \<open>Inr None\<close> is the
  \<^verbatim>\<open>undefined\<close> that the following \<^verbatim>\<open>filter\<close> removes.
\<close>

definition formatBlock :: "block \<Rightarrow> error + item option" where
  "formatBlock p =
     (if block_type p = ''text'' then
        Inr (Some (TextContent (Some (case block_text p of None \<Rightarrow> [] | Some t \<Rightarrow> t))))
      else if block_type p = ''image_url'' then
        (case (case block_image_url p of
                 Some (ImageUrlString s) \<Rightarrow> Inr s
               | Some (ImageUrlObject (Some u)) \<Rightarrow> Inr u
               | _ \<Rightarrow> Inl (Error ''Invalid image_url format'')) of
           Inl e \<Rightarrow> Inl e
         | Inr url \<Rightarrow>
             if startsWith url ''data:'' then
               (case matchDataUrl url of
                  Some (mimeType, data) \<Rightarrow>
                    Inr (Some (ImageContent (Some data) (Some mimeType) None))
                | None \<Rightarrow> Inl (Error ''Invalid data URL format''))
             else Inr (Some (ImageContent None None (if url \<noteq> [] then Some url else None))))
      else Inr None)"

fun formatContent :: "content \<Rightarrow> error + item list" where
  "formatContent (Str s) = Inr [TextContent (Some s)]"
| "formatContent (Blocks bs) =
     (case mapResult formatBlock bs of
        Inl e \<Rightarrow> Inl e
      | Inr parts \<Rightarrow> Inr (List.map_filter (\<lambda>p. p) parts))"

text \<open>
  \<^verbatim>\<open>formatToolResult\<close>; \<^verbatim>\<open>JSON.parse\<close> is the parameter \<open>parse\<close>, \<open>None\<close> where it throws.
\<close>

fun formatToolResult :: "(string \<Rightarrow> json option) \<Rightarrow> content \<Rightarrow> tool_result" where
  "formatToolResult parse (Str s) =
     (case parse s of Some j \<Rightarrow> ResultJson j | None \<Rightarrow> ResultContent (Str s))"
| "formatToolResult parse (Blocks bs) = ResultContent (Blocks bs)"

definition toolCallItem :: "tool_call \<Rightarrow> item" where
  "toolCallItem toolCall =
     FunctionCallContent (Some (case tc_id toolCall of None \<Rightarrow> [] | Some i \<Rightarrow> i))
       (tc_name toolCall) (tc_args toolCall)"

fun convertMessageToGoogleTurn :: "(string \<Rightarrow> json option) \<Rightarrow> message \<Rightarrow> error + turn option" where
  "convertMessageToGoogleTurn parse (HumanMessage c) =
     (case formatContent c of
        Inl e \<Rightarrow> Inl e
      | Inr items \<Rightarrow> Inr (Some \<lparr>turn_role = ''user'', turn_content = items\<rparr>))"
| "convertMessageToGoogleTurn parse (AIMessage c tcs md) =
     (let parts0 = (case md ''thought_signature'' of
                      Some (JStr thoughtSignature) \<Rightarrow> [ThoughtContent (Some thoughtSignature) None]
                    | _ \<Rightarrow> [])
      in case (case c of
                 Str s \<Rightarrow> Inr (if s \<noteq> [] then [TextContent (Some s)] else [])
               | Blocks bs \<Rightarrow> formatContent (Blocks bs)) of
           Inl e \<Rightarrow> Inl e
         | Inr items \<Rightarrow>
             Inr (Some \<lparr>turn_role = ''model'',
                        turn_content = parts0 @ items @ map toolCallItem tcs\<rparr>))"
| "convertMessageToGoogleTurn parse (ToolMessage c name tool_call_id status) =
     Inr (Some \<lparr>turn_role = ''user'',
                turn_content = [FunctionResultContent tool_call_id name
                                 (formatToolResult parse c) (status = Some ''error'')]\<rparr>)"
| "convertMessageToGoogleTurn parse (SystemMessage c) = Inr None"
| "convertMessageToGoogleTurn parse (ChatMessage c role) =
     (case formatContent c of
        Inl e \<Rightarrow> Inl e
      | Inr items \<Rightarrow>
          Inr (Some \<lparr>turn_role = (if role = ''assistant'' then ''model'' else role),
                     turn_content = items\<rparr>))"
| "convertMessageToGoogleTurn parse (OtherMessage c t) =
     Inl (Error (''Unsupported message type: '' @ t))"

text \<open>The text of a system message, as the loop of the payload function computes it.\<close>

fun systemText :: "content \<Rightarrow> string" where
  "systemText (Str s) = s"
| "systemText (Blocks bs) =
     joinWith [CHR 0x0A]
       (map (\<lambda>b. case block_text b of None \<Rightarrow> [] | Some t \<Rightarrow> t)
          (filter (\<lambda>b. block_type b = ''text'') bs))"

text \<open>
  The loop of \<^verbatim>\<open>convertMessagesToGoogleInteractionPayload\<close>, with \<^verbatim>\<open>input\<close> and
  \<^verbatim>\<open>system_instruction\<close> as its state.
\<close>

fun interactionLoop ::
  "(string \<Rightarrow> json option) \<Rightarrow> turn list \<Rightarrow> string option \<Rightarrow> message list
     \<Rightarrow> error + interaction_payload" where
  "interactionLoop parse inp si [] = Inr \<lparr>input = inp, system_instruction = si\<rparr>"
| "interactionLoop parse inp si (m # ms) =
     (if isSystemMessage m then
        (let c = systemText (message_content m) in
         if c \<noteq> [] then
           interactionLoop parse inp
             (case si of
                None \<Rightarrow> Some c
              | Some s \<Rightarrow> if s \<noteq> [] then Some (s @ [CHR 0x0A] @ c) else Some c) ms
         else interactionLoop parse inp si ms)
      else
        (case convertMessageToGoogleTurn parse m of
           Inl e \<Rightarrow> Inl e
         | Inr None \<Rightarrow> interactionLoop parse inp si ms
         | Inr (Some t) \<Rightarrow> interactionLoop parse (inp @ [t]) si ms))"

definition convertMessagesToGoogleInteractionPayload ::
  "(string \<Rightarrow> json option) \<Rightarrow> message list \<Rightarrow> error + interaction_payload" where
  "convertMessagesToGoogleInteractionPayload parse messages =
     interactionLoop parse [] None messages"

section \<open>Standard protocol: decoding (message-outputs)\<close>

record google_usage =
  promptTokenCount :: "nat option"
  responseTokenCount :: "nat option"
  totalTokenCount :: "nat option"

record usage_metadata =
  input_tokens :: nat
  output_tokens :: nat
  total_tokens :: nat

text \<open>
  A candidate: \<open>cand_content = None\<close> when \<^verbatim>\<open>content\<close> is absent, \<open>Some None\<close> when the
  content has no \<^verbatim>\<open>parts\<close>.
\<close>

record candidate =
  cand_content :: "part list option option"
  cand_finishReason :: "string option"
  cand_index :: "nat option"

record response =
  resp_candidates :: "candidate list option"
  resp_usageMetadata :: "google_usage option"
  resp_promptFeedback :: "(string \<times> json) list option"

record chat_generation =
  gen_text :: string
  gen_message :: message
  gen_usage_metadata :: "usage_metadata option"
  gen_finishReason :: "string option"
  gen_index :: "nat option"

definition orZero :: "nat option \<Rightarrow> nat" where
  "orZero v = (case v of None \<Rightarrow> 0 | Some n \<Rightarrow> n)"

definition extractUsageMetadata :: "google_usage option \<Rightarrow> usage_metadata option" where
  "extractUsageMetadata usage =
     (case usage of
        None \<Rightarrow> None
      | Some u \<Rightarrow>
          Some \<lparr>input_tokens = orZero (promptTokenCount u),
                output_tokens = orZero (responseTokenCount u),
                total_tokens = orZero (totalTokenCount u)\<rparr>)"

text \<open>\<^verbatim>\<open>response.candidates?.[0]\<close>.\<close>

definition firstCandidate :: "response \<Rightarrow> candidate option" where
  "firstCandidate r = (case resp_candidates r of Some (c # cs) \<Rightarrow> Some c | _ \<Rightarrow> None)"

text \<open>
  \<^verbatim>\<open>uuidv4()\<close>: the identifiers it returns are the values \<open>gen 0\<close>, \<open>gen 1\<close>, ... of a
  parameter \<open>gen\<close>; the state is the number of identifiers drawn so far.
\<close>

definition uuidv4 :: "(nat \<Rightarrow> string) \<Rightarrow> nat \<Rightarrow> string \<times> nat" where
  "uuidv4 gen n = (gen n, Suc n)"

definition textBlock :: "string \<Rightarrow> block" where
  "textBlock t = \<lparr>block_type = ''text'', block_text = Some t, block_reasoning = None,
     block_image_url = None, block_index = None\<rparr>"

definition reasoningBlock :: "string \<Rightarrow> nat option \<Rightarrow> block" where
  "reasoningBlock t i = \<lparr>block_type = ''reasoning'', block_text = None,
     block_reasoning = Some t, block_image_url = None, block_index = i\<rparr>"

definition imageBlock :: "string \<Rightarrow> block" where
  "imageBlock url = \<lparr>block_type = ''image_url'', block_text = None, block_reasoning = None,
     block_image_url = Some (ImageUrlObject (Some url)), block_index = None\<rparr>"

text \<open>JavaScript truthiness of an optional string and of an optional boolean.\<close>

definition truthyString :: "string option \<Rightarrow> bool" where
  "truthyString v = (case v of None \<Rightarrow> False | Some s \<Rightarrow> s \<noteq> [])"

definition truthyBool :: "bool option \<Rightarrow> bool" where
  "truthyBool v = (v = Some True)"

text \<open>The local variables of \<^verbatim>\<open>convertGoogleResponseToChatGeneration\<close>, and the identifiers drawn.\<close>

record decode_state =
  ds_textContent :: string
  ds_contentBlocks :: "block list"
  ds_toolCalls :: "tool_call list"
  ds_responseMetadata :: metadata
  ds_uuid :: nat

definition pushThought :: "metadata \<Rightarrow> string \<Rightarrow> metadata" where
  "pushThought md t =
     md(''thoughts'' \<mapsto>
        (case md ''thoughts'' of
           Some (JArr existingThoughts) \<Rightarrow> JArr (existingThoughts @ [JStr t])
         | _ \<Rightarrow> JArr [JStr t]))"

definition decodeText :: "part \<Rightarrow> decode_state \<Rightarrow> decode_state" where
  "decodeText p st =
     (case part_text p of
        None \<Rightarrow> st
      | Some t \<Rightarrow>
          if t = [] then st
          else if truthyBool (part_thought p) then
            st\<lparr>ds_contentBlocks := ds_contentBlocks st @ [reasoningBlock t None],
               ds_responseMetadata := pushThought (ds_responseMetadata st) t\<rparr>
          else
            st\<lparr>ds_textContent := ds_textContent st @ t,
               ds_contentBlocks := ds_contentBlocks st @ [textBlock t]\<rparr>)"

definition decodeFunctionCall :: "(nat \<Rightarrow> string) \<Rightarrow> part \<Rightarrow> decode_state \<Rightarrow> decode_state" where
  "decodeFunctionCall gen p st =
     (case part_functionCall p of
        None \<Rightarrow> st
      | Some fc \<Rightarrow>
          (let (i, n) = (case fc_id fc of
                           Some i \<Rightarrow> (i, ds_uuid st)
                         | None \<Rightarrow> uuidv4 gen (ds_uuid st))
           in st\<lparr>ds_toolCalls := ds_toolCalls st @
                    [\<lparr>tc_name = (case fc_name fc of None \<Rightarrow> [] | Some n \<Rightarrow> n),
                      tc_args = (case fc_args fc of None \<Rightarrow> JObj [] | Some a \<Rightarrow> a),
                      tc_id = Some i\<rparr>],
                  ds_uuid := n\<rparr>))"

definition decodeMetadata :: "part \<Rightarrow> decode_state \<Rightarrow> decode_state" where
  "decodeMetadata p st =
     (let md1 = (if truthyString (part_thoughtSignature p)
                 then (ds_responseMetadata st)(''thoughtSignature'' \<mapsto> JStr (the (part_thoughtSignature p)))
                 else ds_responseMetadata st);
          md2 = (case part_executableCode p of
                   Some c \<Rightarrow> md1(''executableCode'' \<mapsto> c) | None \<Rightarrow> md1);
          md3 = (case part_codeExecutionResult p of
                   Some c \<Rightarrow> md2(''codeExecutionResult'' \<mapsto> c) | None \<Rightarrow> md2)
      in st\<lparr>ds_responseMetadata := md3\<rparr>)"

text \<open>One iteration of the loop over \<^verbatim>\<open>candidate.content.parts\<close>.\<close>

definition decodePart :: "(nat \<Rightarrow> string) \<Rightarrow> decode_state \<Rightarrow> part \<Rightarrow> decode_state" where
  "decodePart gen st p = decodeMetadata p (decodeFunctionCall gen p (decodeText p st))"

text \<open>\<^verbatim>\<open>{finishReason, index, ...response.promptFeedback}\<close>.\<close>

definition initialMetadata :: "candidate \<Rightarrow> (string \<times> json) list option \<Rightarrow> metadata" where
  "initialMetadata c pf =
     fold (\<lambda>(k, v) m. m(k \<mapsto> v)) (case pf of None \<Rightarrow> [] | Some kvs \<Rightarrow> kvs)
       (((case cand_finishReason c of
            None \<Rightarrow> Map.empty
          | Some r \<Rightarrow> [''finishReason'' \<mapsto> JStr r]) ::metadata)
        ++ (case cand_index c of None \<Rightarrow> Map.empty | Some i \<Rightarrow> [''index'' \<mapsto> JNum (int i)]))"

definition hasReasoning :: "block list \<Rightarrow> bool" where
  "hasReasoning bs = list_ex (\<lambda>b. block_type b = ''reasoning'') bs"

definition convertGoogleResponseToChatGeneration ::
  "(nat \<Rightarrow> string) \<Rightarrow> nat \<Rightarrow> response \<Rightarrow> error + (chat_generation \<times> nat)" where
  "convertGoogleResponseToChatGeneration gen n r =
     (case firstCandidate r of
        None \<Rightarrow> Inl (Error ''No candidates returned from Google GenAI.'')
      | Some c \<Rightarrow>
          (case cand_content c of
             None \<Rightarrow> Inl (Error ''No candidates returned from Google GenAI.'')
           | Some parts \<Rightarrow>
               (let st = foldl (decodePart gen)
                           \<lparr>ds_textContent = [], ds_contentBlocks = [], ds_toolCalls = [],
                            ds_responseMetadata = initialMetadata c (resp_promptFeedback r),
                            ds_uuid = n\<rparr>
                           (case parts of None \<Rightarrow> [] | Some ps \<Rightarrow> ps);
                    finalContent = (if hasReasoning (ds_contentBlocks st)
                                    then Blocks (ds_contentBlocks st)
                                    else Str (ds_textContent st))
                in Inr (\<lparr>gen_text = ds_textContent st,
                          gen_message = AIMessage finalContent (ds_toolCalls st)
                                          (ds_responseMetadata st),
                          gen_usage_metadata = extractUsageMetadata (resp_usageMetadata r),
                          gen_finishReason = cand_finishReason c,
                          gen_index = cand_index c\<rparr>, ds_uuid st))))"

subsection \<open>Stream chunks\<close>

record tool_call_chunk =
  tcc_name :: string
  tcc_args :: string
  tcc_id :: "string option"
  tcc_index :: "nat option"

text \<open>The fields an \<^verbatim>\<open>AIMessageChunk\<close> is constructed from.\<close>

record chunk =
  ch_content :: content
  ch_tool_call_chunks :: "tool_call_chunk list"
  ch_response_metadata :: metadata
  ch_usage_metadata :: "usage_metadata option"

record generation_chunk =
  gc_message :: chunk
  gc_text :: string

text \<open>\<^verbatim>\<open>JSON.stringify\<close> is the parameter \<open>stringify\<close>.\<close>

definition convertFunctionCallToToolCallChunk ::
  "(json option \<Rightarrow> string) \<Rightarrow> (nat \<Rightarrow> string) \<Rightarrow> nat \<Rightarrow> function_call \<Rightarrow> nat
     \<Rightarrow> tool_call_chunk \<times> nat" where
  "convertFunctionCallToToolCallChunk stringify gen n fc index =
     (let (i, n') = (case fc_id fc of Some i \<Rightarrow> (i, n) | None \<Rightarrow> uuidv4 gen n)
      in (\<lparr>tcc_name = (case fc_name fc of None \<Rightarrow> [] | Some nm \<Rightarrow> nm),
            tcc_args = stringify (fc_args fc),
            tcc_id = Some i,
            tcc_index = Some index\<rparr>, n'))"

definition convertPartToChunk ::
  "(json option \<Rightarrow> string) \<Rightarrow> (nat \<Rightarrow> string) \<Rightarrow> nat \<Rightarrow> part \<Rightarrow> nat \<Rightarrow> chunk \<times> nat" where
  "convertPartToChunk stringify gen n p index =
     (let responseMetadata =
            (if truthyString (part_thoughtSignature p)
             then [''thoughtSignature'' \<mapsto> JStr (the (part_thoughtSignature p))]
             else Map.empty)
      in case part_text p of
           Some t \<Rightarrow>
             if truthyBool (part_thought p) then
               (\<lparr>ch_content = Blocks [reasoningBlock t (Some 0)], ch_tool_call_chunks = [],
                 ch_response_metadata = responseMetadata, ch_usage_metadata = None\<rparr>, n)
             else
               (\<lparr>ch_content = Str t, ch_tool_call_chunks = [],
                 ch_response_metadata = responseMetadata, ch_usage_metadata = None\<rparr>, n)
         | None \<Rightarrow>
             (case part_functionCall p of
                Some fc \<Rightarrow>
                  (let (tcc, n') = convertFunctionCallToToolCallChunk stringify gen n fc index
                   in (\<lparr>ch_content = Str [], ch_tool_call_chunks = [tcc],
                        ch_response_metadata = responseMetadata, ch_usage_metadata = None\<rparr>, n'))
              | None \<Rightarrow>
                  (\<lparr>ch_content = Str [], ch_tool_call_chunks = [],
                    ch_response_metadata = responseMetadata, ch_usage_metadata = None\<rparr>, n)))"

text \<open>
  The \<^verbatim>\<open>reduce\<close> over the parts of a stream chunk. \<^verbatim>\<open>AIMessageChunk.concat\<close> belongs to
  the message library, not to this repository: it is the parameter \<open>cc\<close>.
\<close>

fun reduceParts ::
  "(chunk \<Rightarrow> chunk \<Rightarrow> chunk) \<Rightarrow> (json option \<Rightarrow> string) \<Rightarrow> (nat \<Rightarrow> string)
     \<Rightarrow> chunk option \<Rightarrow> nat \<Rightarrow> nat \<Rightarrow> part list \<Rightarrow> chunk option \<times> nat" where
  "reduceParts cc stringify gen acc n index [] = (acc, n)"
| "reduceParts cc stringify gen acc n index (p # ps) =
     (let (nextChunk, n') = convertPartToChunk stringify gen n p index
      in reduceParts cc stringify gen
           (Some (case acc of None \<Rightarrow> nextChunk | Some a \<Rightarrow> cc a nextChunk))
           n' (Suc index) ps)"

text \<open>The \<^verbatim>\<open>text\<close> of a generation chunk, from the content of its message.\<close>

fun chunkText :: "content \<Rightarrow> string" where
  "chunkText (Str s) = s"
| "chunkText (Blocks bs) =
     concat (map (\<lambda>b. the (block_text b))
       (filter (\<lambda>b. block_type b = ''text'' \<and> block_text b \<noteq> None) bs))"

definition convertGoogleStreamChunkToLangChainChunk ::
  "(chunk \<Rightarrow> chunk \<Rightarrow> chunk) \<Rightarrow> (json option \<Rightarrow> string) \<Rightarrow> (nat \<Rightarrow> string) \<Rightarrow> nat
     \<Rightarrow> response \<Rightarrow> generation_chunk option \<times> nat" where
  "convertGoogleStreamChunkToLangChainChunk cc stringify gen n r =
     (case firstCandidate r of
        None \<Rightarrow>
          (case resp_usageMetadata r of
             Some u \<Rightarrow>
               (Some \<lparr>gc_message = \<lparr>ch_content = Str [], ch_tool_call_chunks = [],
                                    ch_response_metadata = Map.empty,
                                    ch_usage_metadata = extractUsageMetadata (Some u)\<rparr>,
                      gc_text = []\<rparr>, n)
           | None \<Rightarrow> (None, n))
      | Some c \<Rightarrow>
          (case cand_content c of
             Some (Some parts) \<Rightarrow>
               (case reduceParts cc stringify gen None n 0 parts of
                  (None, n') \<Rightarrow> (None, n')
                | (Some ch, n') \<Rightarrow>
                    (let ch' = (case resp_usageMetadata r of
                                  Some u \<Rightarrow> ch\<lparr>ch_usage_metadata := extractUsageMetadata (Some u)\<rparr>
                                | None \<Rightarrow> ch)
                     in (Some \<lparr>gc_message = ch', gc_text = chunkText (ch_content ch')\<rparr>, n')))
           | _ \<Rightarrow> (None, n)))"

section \<open>Interactions protocol: decoding (interaction-utils)\<close>

record interaction_usage =
  total_input_tokens :: "nat option"
  total_output_tokens :: "nat option"
  usage_total_tokens :: "nat option"

record interaction =
  int_outputs :: "item list option"
  int_id :: "string option"
  int_status :: "string option"
  int_model :: "string option"
  int_usage :: "interaction_usage option"

text \<open>The local variables of \<^verbatim>\<open>convertInteractionToChatGeneration\<close>.\<close>

record interaction_state =
  is_textContent :: string
  is_contentBlocks :: "block list"
  is_toolCalls :: "tool_call list"
  is_responseMetadata :: metadata

text \<open>A template literal prints an absent value as \<^verbatim>\<open>undefined\<close>.\<close>

definition templateString :: "string option \<Rightarrow> string" where
  "templateString v = (case v of None \<Rightarrow> ''undefined'' | Some s \<Rightarrow> s)"

text \<open>One iteration of the loop over \<^verbatim>\<open>outputs\<close>.\<close>

fun decodeOutput :: "interaction_state \<Rightarrow> item \<Rightarrow> interaction_state" where
  "decodeOutput st (TextContent t) =
     (let text = (case t of None \<Rightarrow> [] | Some s \<Rightarrow> s)
      in st\<lparr>is_textContent := is_textContent st @ text,
            is_contentBlocks := is_contentBlocks st @ [textBlock text]\<rparr>)"
| "decodeOutput st (ImageContent data mime_type uri) =
     st\<lparr>is_contentBlocks := is_contentBlocks st @
          [imageBlock (''data:'' @ templateString mime_type @ '';base64,'' @ templateString data)]\<rparr>"
| "decodeOutput st (FunctionCallContent i name arguments) =
     st\<lparr>is_toolCalls := is_toolCalls st @ [\<lparr>tc_name = name, tc_args = arguments, tc_id = i\<rparr>]\<rparr>"
| "decodeOutput st (ThoughtContent signature summary) =
     (let st1 = (if truthyString signature
                 then st\<lparr>is_responseMetadata :=
                         (is_responseMetadata st)(''thought_signature'' \<mapsto> JStr (the signature))\<rparr>
                 else st)
      in case summary of
           None \<Rightarrow> st1
         | Some ss \<Rightarrow>
             if ss \<noteq> [] then
               st1\<lparr>is_contentBlocks := is_contentBlocks st1 @
                     [reasoningBlock
                        (joinWith [CHR 0x0A]
                           (map (\<lambda>s. case s of SummaryText t \<Rightarrow> t | SummaryOther \<Rightarrow> []) ss))
                        None]\<rparr>
             else st1)"
| "decodeOutput st (CodeExecutionResultContent j) =
     st\<lparr>is_responseMetadata := (is_responseMetadata st)(''code_execution_result'' \<mapsto> j)\<rparr>"
| "decodeOutput st (FunctionResultContent call_id name result is_error) = st"
| "decodeOutput st (OtherContent t) = st"

definition optJStr :: "string \<Rightarrow> string option \<Rightarrow> metadata" where
  "optJStr k v = (case v of None \<Rightarrow> Map.empty | Some s \<Rightarrow> [k \<mapsto> JStr s])"

definition convertInteractionToChatGeneration ::
  "interaction \<Rightarrow> usage_metadata option \<Rightarrow> chat_generation list" where
  "convertInteractionToChatGeneration r usageMetadata =
     (let outputs = (case int_outputs r of None \<Rightarrow> [] | Some os \<Rightarrow> os);
          usage = (case usageMetadata of
                     Some u \<Rightarrow> Some u
                   | None \<Rightarrow>
                       (case int_usage r of
                          None \<Rightarrow> None
                        | Some u \<Rightarrow>
                            Some \<lparr>input_tokens = orZero (total_input_tokens u),
                                  output_tokens = orZero (total_output_tokens u),
                                  total_tokens = orZero (usage_total_tokens u)\<rparr>));
          st = foldl decodeOutput
                 \<lparr>is_textContent = [], is_contentBlocks = [], is_toolCalls = [],
                  is_responseMetadata = Map.empty\<rparr> outputs;
          isOnlyText = list_all (\<lambda>b. block_type b = ''text'') (is_contentBlocks st);
          finalContent = (if isOnlyText \<and> is_textContent st \<noteq> []
                          then Str (is_textContent st)
                          else Blocks (is_contentBlocks st));
          content = (case finalContent of
                       Str s \<Rightarrow> if length s > 0 then Str s else Str (is_textContent st)
                     | Blocks bs \<Rightarrow> if length bs > 0 then Blocks bs else Str (is_textContent st))
      in [\<lparr>gen_text = is_textContent st,
           gen_message = AIMessage content (is_toolCalls st)
             (optJStr ''interaction_id'' (int_id r) ++ optJStr ''finish_reason'' (int_status r)
                ++ optJStr ''model'' (int_model r) ++ is_responseMetadata st),
           gen_usage_metadata = usage,
           gen_finishReason = int_status r,
           gen_index = None\<rparr>])"

section \<open>Routing between the protocols (chat-models)\<close>

text \<open>The fields of the model and of the call options that the routing can see.\<close>

record chat_model =
  useExperimentalInteractionsApi :: bool
  streaming :: bool
  agent :: "string option"
  model :: "string option"

record call_options =
  previousInteractionId :: "string option"
  background :: "bool option"
  stop :: "string list option"

definition shouldUseInteractionsApi :: "chat_model \<Rightarrow> call_options \<Rightarrow> bool" where
  "shouldUseInteractionsApi this options =
     (useExperimentalInteractionsApi this \<or> truthyString (previousInteractionId options))"

datatype protocol = StandardProtocol | InteractionsProtocol

text \<open>The first branch of \<^verbatim>\<open>_generate\<close> and of \<^verbatim>\<open>_streamResponseChunks\<close>.\<close>

definition route :: "chat_model \<Rightarrow> call_options \<Rightarrow> protocol" where
  "route this options =
     (if shouldUseInteractionsApi this options then InteractionsProtocol else StandardProtocol)"

section \<open>Accumulation of a stream (chat-models)\<close>


section \<open>Specification-side notions\<close>

text \<open>
  A base64 data URL, as the specification reads it: \<^verbatim>\<open>data:\<close>, a media type that is not
  empty, \<^verbatim>\<open>;base64,\<close> and a payload that is not empty.
\<close>

definition validBase64DataUrl :: "string \<Rightarrow> bool" where
  "validBase64DataUrl url =
     (\<exists>mimeType data. mimeType \<noteq> [] \<and> data \<noteq> [] \<and>
        url = ''data:'' @ mimeType @ '';base64,'' @ data)"


text \<open>The parts of the first candidate of a response.\<close>

definition responseParts :: "response \<Rightarrow> part list" where
  "responseParts r =
     (case firstCandidate r of
        Some c \<Rightarrow> (case cand_content c of Some (Some ps) \<Rightarrow> ps | _ \<Rightarrow> [])
      | None \<Rightarrow> [])"

text \<open>A thought-marked part with text, and a part with plain text.\<close>

definition isReasoningPart :: "part \<Rightarrow> bool" where
  "isReasoningPart p = (truthyString (part_text p) \<and> truthyBool (part_thought p))"

definition isTextPart :: "part \<Rightarrow> bool" where
  "isTextPart p = (truthyString (part_text p) \<and> \<not> truthyBool (part_thought p))"

text \<open>The content blocks that a part stands for: at most one.\<close>

definition partBlocks :: "part \<Rightarrow> block list" where
  "partBlocks p =
     (if isReasoningPart p then [reasoningBlock (the (part_text p)) None]
      else if isTextPart p then [textBlock (the (part_text p))]
      else [])"

text \<open>The content blocks that an output item of an interaction stands for.\<close>

fun outputBlocks :: "item \<Rightarrow> block list" where
  "outputBlocks (TextContent t) = [textBlock (case t of None \<Rightarrow> [] | Some s \<Rightarrow> s)]"
| "outputBlocks (ImageContent data mime_type uri) =
     [imageBlock (''data:'' @ templateString mime_type @ '';base64,'' @ templateString data)]"
| "outputBlocks (ThoughtContent signature summary) =
     (case summary of
        None \<Rightarrow> []
      | Some ss \<Rightarrow>
          if ss = [] then []
          else [reasoningBlock
                  (joinWith [CHR 0x0A]
                     (map (\<lambda>s. case s of SummaryText t \<Rightarrow> t | SummaryOther \<Rightarrow> []) ss))
                  None])"
| "outputBlocks other = []"

text \<open>
  Identifiers for a sequence of function calls: the server's identifier where there is
  one, otherwise the next identifier of the generator.
\<close>

fun assignIds :: "(nat \<Rightarrow> string) \<Rightarrow> nat \<Rightarrow> string option list \<Rightarrow> string list" where
  "assignIds gen n [] = []"
| "assignIds gen n (Some i # ids) = i # assignIds gen n ids"
| "assignIds gen n (None # ids) = gen n # assignIds gen (Suc n) ids"

text \<open>The function calls of a part list, and the function-call items of an output list.\<close>

definition functionCalls :: "part list \<Rightarrow> function_call list" where
  "functionCalls ps = List.map_filter part_functionCall ps"

fun functionCallItemId :: "item \<Rightarrow> string option option" where
  "functionCallItemId (FunctionCallContent i name arguments) = Some i"
| "functionCallItemId other = None"

text \<open>The outputs of an interaction, and the text that an output item adds to the message text.\<close>

definition interactionOutputs :: "interaction \<Rightarrow> item list" where
  "interactionOutputs r = (case int_outputs r of None \<Rightarrow> [] | Some os \<Rightarrow> os)"

definition outputText :: "item \<Rightarrow> string" where
  "outputText x = (case x of TextContent (Some t) \<Rightarrow> t | _ \<Rightarrow> [])"

text \<open>The text that a part adds to the message text.\<close>

definition partText :: "part \<Rightarrow> string" where
  "partText p = (if isTextPart p then the (part_text p) else [])"

text \<open>The tool calls of a decoded message.\<close>

fun message_tool_calls :: "message \<Rightarrow> tool_call list" where
  "message_tool_calls (AIMessage c tcs md) = tcs"
| "message_tool_calls m = []"

text \<open>The parts of a wire entry, each with the role of the entry.\<close>

definition taggedParts :: "wire_content \<Rightarrow> (string \<times> part) list" where
  "taggedParts c = map (Pair (wc_role c)) (wc_parts c)"

section \<open>Concatenation of chunks\<close>

text \<open>
  Modelled from the spec: \<^verbatim>\<open>AIMessageChunk.concat\<close> and \<^verbatim>\<open>ChatGenerationChunk.concat\<close>
  belong to the message library and are not under \<^verbatim>\<open>src/\<close>. The specification (4.4)
  describes the concatenation: text appends to the open text block, reasoning text
  appends to the open reasoning block (adjacent blocks of the same kind merge, a kind
  switch starts a new block), tool-call argument fragments append by index to the
  matching in-progress tool call, and a delta that only holds a signature updates the
  metadata without opening a content block.
\<close>

definition sameKind :: "block \<Rightarrow> block \<Rightarrow> bool" where
  "sameKind a b =
     (block_type a = block_type b \<and> (block_type a = ''text'' \<or> block_type a = ''reasoning''))"

definition appendOpt :: "string option \<Rightarrow> string option \<Rightarrow> string option" where
  "appendOpt a b =
     (case a of
        None \<Rightarrow> b
      | Some x \<Rightarrow> (case b of None \<Rightarrow> Some x | Some y \<Rightarrow> Some (x @ y)))"

definition mergeBlocks :: "block \<Rightarrow> block \<Rightarrow> block" where
  "mergeBlocks a b =
     a\<lparr>block_text := appendOpt (block_text a) (block_text b),
       block_reasoning := appendOpt (block_reasoning a) (block_reasoning b)\<rparr>"

text \<open>
  Modelled from the spec: the library's merge of a block into a block sequence. A block of
  the kind of the open (last) block is appended to it; a block of another kind starts a
  new block.
\<close>

definition appendBlock :: "block list \<Rightarrow> block \<Rightarrow> block list" where
  "appendBlock bs b =
     (if bs \<noteq> [] \<and> sameKind (last bs) b then butlast bs @ [mergeBlocks (last bs) b]
      else bs @ [b])"

text \<open>
  Modelled from the spec: the library's merge of two message contents. Two strings are
  joined; an empty string opens no block.
\<close>

fun concatContent :: "content \<Rightarrow> content \<Rightarrow> content" where
  "concatContent (Str a) (Str b) = Str (a @ b)"
| "concatContent (Str a) (Blocks bs) =
     (if a = [] then Blocks bs else Blocks (foldl appendBlock [textBlock a] bs))"
| "concatContent (Blocks as) (Str b) =
     (if b = [] then Blocks as else Blocks (appendBlock as (textBlock b)))"
| "concatContent (Blocks as) (Blocks bs) = Blocks (foldl appendBlock as bs)"

text \<open>
  Modelled from the spec: the library's merge of tool-call chunks. The argument fragment of
  a chunk is appended to the chunk of the same index, when there is one.
\<close>

fun mergeToolCallChunk :: "tool_call_chunk list \<Rightarrow> tool_call_chunk \<Rightarrow> tool_call_chunk list" where
  "mergeToolCallChunk [] c = [c]"
| "mergeToolCallChunk (x # xs) c =
     (if tcc_index c \<noteq> None \<and> tcc_index x = tcc_index c
      then x\<lparr>tcc_args := tcc_args x @ tcc_args c\<rparr> # xs
      else x # mergeToolCallChunk xs c)"

text \<open>
  Modelled from the spec: \<^verbatim>\<open>AIMessageChunk.concat\<close>, absent from \<^verbatim>\<open>src/\<close>. The content and
  the tool-call chunks are merged, the metadata of the second chunk updates that of the
  first, and the usage counts of the later chunk are the ones recorded.
\<close>

definition concatChunk :: "chunk \<Rightarrow> chunk \<Rightarrow> chunk" where
  "concatChunk a b =
     \<lparr>ch_content = concatContent (ch_content a) (ch_content b),
      ch_tool_call_chunks = foldl mergeToolCallChunk (ch_tool_call_chunks a) (ch_tool_call_chunks b),
      ch_response_metadata = ch_response_metadata a ++ ch_response_metadata b,
      ch_usage_metadata = (case ch_usage_metadata b of
                             None \<Rightarrow> ch_usage_metadata a
                           | Some u \<Rightarrow> Some u)\<rparr>"


text \<open>
  The content of a message as a sequence of segments, a kind with its text, and the
  normal form of such a sequence: empty segments dropped, adjacent text segments joined,
  adjacent reasoning segments joined. The index of a block is not part of a segment.
\<close>

definition optString :: "string option \<Rightarrow> string" where
  "optString v = (case v of None \<Rightarrow> [] | Some s \<Rightarrow> s)"

definition segment :: "block \<Rightarrow> string \<times> string" where
  "segment b =
     (block_type b,
      if block_type b = ''reasoning'' then optString (block_reasoning b)
      else optString (block_text b))"

fun segments :: "content \<Rightarrow> (string \<times> string) list" where
  "segments (Str s) = [(''text'', s)]"
| "segments (Blocks bs) = map segment bs"

definition joinable :: "string \<Rightarrow> string \<Rightarrow> bool" where
  "joinable k k' = (k = k' \<and> (k = ''text'' \<or> k = ''reasoning''))"

definition addSegment :: "(string \<times> string) list \<Rightarrow> string \<times> string \<Rightarrow> (string \<times> string) list" where
  "addSegment acc x =
     (if snd x = [] then acc
      else if acc \<noteq> [] \<and> joinable (fst (last acc)) (fst x)
      then butlast acc @ [(fst x, snd (last acc) @ snd x)]
      else acc @ [x])"

definition normalForm :: "(string \<times> string) list \<Rightarrow> (string \<times> string) list" where
  "normalForm xs = foldl addSegment [] xs"

text \<open>The segment that the stream converter makes of a part.\<close>

definition partSegments :: "part \<Rightarrow> (string \<times> string) list" where
  "partSegments p =
     (case part_text p of
        Some t \<Rightarrow> [(if truthyBool (part_thought p) then ''reasoning'' else ''text'', t)]
      | None \<Rightarrow> [(''text'', [])])"

text \<open>The signature that a sequence of parts leaves: that of the last part that has one.\<close>

definition lastSignature :: "json option \<Rightarrow> part list \<Rightarrow> json option" where
  "lastSignature v ps =
     foldl (\<lambda>v p. if truthyString (part_thoughtSignature p)
                   then Some (JStr (the (part_thoughtSignature p))) else v) v ps"


text \<open>What an accumulated chunk holds: its text, its segments in normal form, its signature.\<close>

definition accText :: "chunk option \<Rightarrow> string" where
  "accText acc = (case acc of None \<Rightarrow> [] | Some a \<Rightarrow> chunkText (ch_content a))"

definition accSegments :: "chunk option \<Rightarrow> (string \<times> string) list" where
  "accSegments acc = (case acc of None \<Rightarrow> [] | Some a \<Rightarrow> normalForm (segments (ch_content a)))"

definition accSignature :: "chunk option \<Rightarrow> json option" where
  "accSignature acc = (case acc of None \<Rightarrow> None | Some a \<Rightarrow> ch_response_metadata a ''thoughtSignature'')"

definition accGenText :: "generation_chunk option \<Rightarrow> string" where
  "accGenText acc = (case acc of None \<Rightarrow> [] | Some g \<Rightarrow> gc_text g)"

definition accMessage :: "generation_chunk option \<Rightarrow> chunk option" where
  "accMessage acc = map_option gc_message acc"

section \<open>Malformed image literals\<close>





text \<open>The matcher accepts the well-formed literal of the specification, and every URL of the
  shape that has no line terminator.\<close>

lemma parseBase64Data_example:
  "parseBase64Data ''data:image/png;base64,QUJD'' = Inr (''image/png'', ''QUJD'')"
  by (simp add: parseBase64Data_def matchDataUrl_def startsWith_def dotPlus_def
        isLineTerminator_def Let_def)

lemma matchGroups_complete:
  assumes "r = a @ '';base64,'' @ b" and "a \<noteq> []" and "b \<noteq> []"
    and "list_all (\<lambda>c. \<not> isLineTerminator c) r"
  shows "length a \<le> n \<Longrightarrow> matchGroups n r \<noteq> None"
proof (induction n)
  case 0
  with assms(2) show ?case by simp
next
  case (Suc n)
  show ?case
  proof (cases "length a = Suc n")
    case True
    with assms(1) have t: "take (Suc n) r = a" and d: "drop (Suc n) r = '';base64,'' @ b"
      by simp_all
    from assms(1,4) have "list_all (\<lambda>c. \<not> isLineTerminator c) a"
      and "list_all (\<lambda>c. \<not> isLineTerminator c) b" by simp_all
    with assms(2,3) have "dotPlus a" "dotPlus b" by (simp_all add: dotPlus_def)
    moreover have "startsWith ('';base64,'' @ b) '';base64,''" by (simp add: startsWith_def)
    moreover have "drop 8 ('';base64,'' @ b) = b" by simp
    ultimately show ?thesis unfolding matchGroups.simps Let_def t d by simp
  next
    case False
    with Suc.prems have "length a \<le> n" by simp
    from Suc.IH[OF this] show ?thesis by (auto simp: Let_def)
  qed
qed

lemma matchDataUrl_complete:
  assumes "validBase64DataUrl url" and "list_all (\<lambda>c. \<not> isLineTerminator c) url"
  shows "matchDataUrl url \<noteq> None"
proof -
  from assms(1) obtain a b where ab: "a \<noteq> []" "b \<noteq> []" "url = ''data:'' @ a @ '';base64,'' @ b"
    unfolding validBase64DataUrl_def by blast
  then have d: "drop 5 url = a @ '';base64,'' @ b" and s: "startsWith url ''data:''"
    by (simp_all add: startsWith_def)
  from assms(2) ab(3) have l: "list_all (\<lambda>c. \<not> isLineTerminator c) (drop 5 url)"
    unfolding d by simp
  have "length a \<le> length url - 5" using ab(3) by simp
  from matchGroups_complete[OF d ab(1,2) l this] s show ?thesis
    by (simp add: matchDataUrl_def)
qed


lemma mapResult_fails:
  "x \<in> set xs \<Longrightarrow> f x = Inl e \<Longrightarrow> \<exists>e'. mapResult f xs = Inl e'"
  by (induction xs) (auto split: sum.splits)








section \<open>Content blocks without a mapping\<close>

lemma formatBlock_dropped:
  "block_type b \<noteq> ''text'' \<Longrightarrow> block_type b \<noteq> ''image_url'' \<Longrightarrow> formatBlock b = Inr None"
  by (simp add: formatBlock_def)

lemma formatContent_filter:
  "formatContent (Blocks bs)
     = formatContent (Blocks (filter (\<lambda>b. block_type b = ''text'' \<or> block_type b = ''image_url'') bs))"
proof -
  have "(case mapResult formatBlock bs of Inl e \<Rightarrow> Inl e
          | Inr parts \<Rightarrow> Inr (List.map_filter (\<lambda>p. p) parts))
      = (case mapResult formatBlock
                (filter (\<lambda>b. block_type b = ''text'' \<or> block_type b = ''image_url'') bs) of
           Inl e \<Rightarrow> Inl e | Inr parts \<Rightarrow> Inr (List.map_filter (\<lambda>p. p) parts))"
  proof (induction bs)
    case Nil
    then show ?case by simp
  next
    case (Cons b bs)
    then show ?case
      by (cases "block_type b = ''text'' \<or> block_type b = ''image_url''")
         (auto simp: formatBlock_dropped List.map_filter_def split: sum.splits)
  qed
  then show ?thesis by simp
qed

lemma convertBlockToPart_unsupported:
  "block_type b \<noteq> ''text'' \<Longrightarrow> block_type b \<noteq> ''reasoning'' \<Longrightarrow> block_type b \<noteq> ''image_url''
   \<Longrightarrow> convertBlockToPart b = Inl (Error (''Unsupported content block type: '' @ block_type b))"
  by (simp add: convertBlockToPart_def)

text \<open>
  C5, as stated, fails on the interactions codec: a block of type \<^verbatim>\<open>audio\<close> is encoded to
  nothing, without an error.
\<close>

theorem interactions_drops_block_counterexample:
  "formatContent (Blocks [\<lparr>block_type = ''audio'', block_text = None, block_reasoning = None,
      block_image_url = None, block_index = None\<rparr>]) = Inr []"
  by (simp add: formatBlock_def List.map_filter_def)

text \<open>
  C5, amended. The standard codec throws \<^verbatim>\<open>Unsupported content block type: <type>\<close> at every
  block whose type is not \<^verbatim>\<open>text\<close>, \<^verbatim>\<open>reasoning\<close> or \<^verbatim>\<open>image_url\<close>, and a content list
  holding such a block is not encoded. The interactions codec maps every block whose type
  is neither \<^verbatim>\<open>text\<close> nor \<^verbatim>\<open>image_url\<close> (reasoning blocks too) to nothing: its result is
  the result for the list without those blocks.
\<close>

theorem unsupported_block_handling:
  "(block_type b \<notin> {''text'', ''reasoning'', ''image_url''} \<longrightarrow>
       convertBlockToPart b = Inl (Error (''Unsupported content block type: '' @ block_type b))
     \<and> (b \<in> set bs \<longrightarrow> (\<exists>e. convertContentToParts (Blocks bs) = Inl e)))
 \<and> (block_type b \<notin> {''text'', ''image_url''} \<longrightarrow> formatBlock b = Inr None)
 \<and> formatContent (Blocks bs)
     = formatContent (Blocks (filter (\<lambda>b. block_type b = ''text'' \<or> block_type b = ''image_url'') bs))"
proof -
  have "\<exists>e. convertContentToParts (Blocks bs) = Inl e"
    if "block_type b \<notin> {''text'', ''reasoning'', ''image_url''}" "b \<in> set bs"
    using mapResult_fails[of b bs convertBlockToPart, OF that(2)]
      convertBlockToPart_unsupported[of b] that(1) by simp
  then show ?thesis
    using convertBlockToPart_unsupported[of b] formatBlock_dropped[of b] formatContent_filter[of bs]
    by blast
qed

theorem unsupported_block_handling_witness:
  "convertBlockToPart \<lparr>block_type = ''audio'', block_text = None, block_reasoning = None,
      block_image_url = None, block_index = None\<rparr>
     = Inl (Error ''Unsupported content block type: audio'')
   \<and> (\<exists>e. convertContentToParts (Blocks [\<lparr>block_type = ''audio'', block_text = None,
         block_reasoning = None, block_image_url = None, block_index = None\<rparr>]) = Inl e)
   \<and> formatBlock \<lparr>block_type = ''audio'', block_text = None, block_reasoning = None,
      block_image_url = None, block_index = None\<rparr> = Inr None"
  using unsupported_block_handling[of "\<lparr>block_type = ''audio'', block_text = None,
      block_reasoning = None, block_image_url = None, block_index = None\<rparr>"
      "[\<lparr>block_type = ''audio'', block_text = None,
      block_reasoning = None, block_image_url = None, block_index = None\<rparr>]"]
  by simp

section \<open>Responses without a candidate or an output\<close>

text \<open>
  C4, as stated, fails on the interactions decoder: an interaction without outputs is
  decoded to a message with empty content, without an error.
\<close>

theorem interactions_empty_response_counterexample:
  "convertInteractionToChatGeneration
     \<lparr>int_outputs = None, int_id = None, int_status = None, int_model = None, int_usage = None\<rparr>
     None
   = [\<lparr>gen_text = [], gen_message = AIMessage (Str []) [] Map.empty,
       gen_usage_metadata = None, gen_finishReason = None, gen_index = None\<rparr>]"
  by (simp add: convertInteractionToChatGeneration_def optJStr_def)

text \<open>
  C4, amended. The standard full-response decoder throws
  \<^verbatim>\<open>No candidates returned from Google GenAI.\<close> on a response without a candidate, and on
  one whose first candidate has no content; it returns no message. The interactions
  decoder takes absent outputs as an empty list and returns one generation with empty
  text, empty string content and no tool call.
\<close>

theorem empty_response_handling:
  "(resp_candidates r = None \<or> resp_candidates r = Some [] \<longrightarrow>
      convertGoogleResponseToChatGeneration gen n r
        = Inl (Error ''No candidates returned from Google GenAI.''))
 \<and> (resp_candidates r = Some (c # cs) \<and> cand_content c = None \<longrightarrow>
      convertGoogleResponseToChatGeneration gen n r
        = Inl (Error ''No candidates returned from Google GenAI.''))
 \<and> (int_outputs i = None \<or> int_outputs i = Some [] \<longrightarrow>
      (\<exists>md us. convertInteractionToChatGeneration i u
         = [\<lparr>gen_text = [], gen_message = AIMessage (Str []) [] md,
             gen_usage_metadata = us, gen_finishReason = int_status i, gen_index = None\<rparr>]))"
  by (auto simp: convertGoogleResponseToChatGeneration_def firstCandidate_def
        convertInteractionToChatGeneration_def Let_def)

theorem empty_response_handling_witness:
  "convertGoogleResponseToChatGeneration (\<lambda>k. ''generated'') 0
     \<lparr>resp_candidates = Some [], resp_usageMetadata = None, resp_promptFeedback = None\<rparr>
   = Inl (Error ''No candidates returned from Google GenAI.'')
 \<and> (\<exists>md us. convertInteractionToChatGeneration
       \<lparr>int_outputs = Some [], int_id = None, int_status = None, int_model = None,
        int_usage = None\<rparr> None
      = [\<lparr>gen_text = [], gen_message = AIMessage (Str []) [] md,
          gen_usage_metadata = us, gen_finishReason = None, gen_index = None\<rparr>])"
  using empty_response_handling[of
     "\<lparr>resp_candidates = Some [], resp_usageMetadata = None, resp_promptFeedback = None\<rparr>"
     "\<lambda>k. ''generated''" 0 undefined undefined
     "\<lparr>int_outputs = Some [], int_id = None, int_status = None, int_model = None,
       int_usage = None\<rparr>" None]
  by simp

section \<open>Routing\<close>

text \<open>
  C9, as stated, fails where the options hold an empty \<^verbatim>\<open>previousInteractionId\<close>: the
  test is JavaScript truthiness, and the empty string is falsy.
\<close>

theorem empty_previous_id_counterexample:
  "route \<lparr>useExperimentalInteractionsApi = False, streaming = False, agent = None,
          model = Some ''gemini-2.5-flash''\<rparr>
         \<lparr>previousInteractionId = Some [], background = None, stop = None\<rparr>
   = StandardProtocol"
  by (simp add: route_def shouldUseInteractionsApi_def truthyString_def)

text \<open>
  C9, amended. Options that hold a \<^verbatim>\<open>previousInteractionId\<close> that is not the empty string
  route the call through the interactions protocol, whatever the model's flag; and the
  route is the same for any two models and options that agree on the flag and on the
  identifier.
\<close>

theorem routing_by_two_flags:
  "(previousInteractionId options = Some i \<and> i \<noteq> [] \<longrightarrow> route this options = InteractionsProtocol)
 \<and> (useExperimentalInteractionsApi this = useExperimentalInteractionsApi this'
      \<and> previousInteractionId options = previousInteractionId options'
      \<longrightarrow> route this options = route this' options')"
  by (simp add: route_def shouldUseInteractionsApi_def truthyString_def)

theorem routing_by_two_flags_witness:
  "route \<lparr>useExperimentalInteractionsApi = False, streaming = False, agent = None,
          model = Some ''gemini-2.5-flash''\<rparr>
         \<lparr>previousInteractionId = Some ''abc'', background = None, stop = None\<rparr>
   = InteractionsProtocol
 \<and> route \<lparr>useExperimentalInteractionsApi = False, streaming = False, agent = None,
          model = Some ''gemini-2.5-flash''\<rparr>
         \<lparr>previousInteractionId = Some ''abc'', background = None, stop = None\<rparr>
   = route \<lparr>useExperimentalInteractionsApi = False, streaming = True, agent = None,
          model = Some ''gemini-3-flash-preview''\<rparr>
         \<lparr>previousInteractionId = Some ''abc'', background = Some True, stop = None\<rparr>"
  using routing_by_two_flags[of
     "\<lparr>previousInteractionId = Some ''abc'', background = None, stop = None\<rparr>" "''abc''"
     "\<lparr>useExperimentalInteractionsApi = False, streaming = False, agent = None,
       model = Some ''gemini-2.5-flash''\<rparr>"
     "\<lparr>useExperimentalInteractionsApi = False, streaming = True, agent = None,
       model = Some ''gemini-3-flash-preview''\<rparr>"
     "\<lparr>previousInteractionId = Some ''abc'', background = Some True, stop = None\<rparr>"]
  by auto


section \<open>Shape of the decoded content\<close>

lemma decodePart_blocks:
  "ds_contentBlocks (decodePart gen st p) = ds_contentBlocks st @ partBlocks p"
  by (auto simp: decodePart_def decodeMetadata_def decodeFunctionCall_def decodeText_def
        partBlocks_def isReasoningPart_def isTextPart_def truthyString_def Let_def
        split: option.splits prod.splits)

lemma decodePart_text:
  "ds_textContent (decodePart gen st p) = ds_textContent st @ partText p"
  by (auto simp: decodePart_def decodeMetadata_def decodeFunctionCall_def decodeText_def
        isTextPart_def truthyString_def Let_def partText_def
        split: option.splits prod.splits)

lemma foldl_decodePart_blocks:
  "ds_contentBlocks (foldl (decodePart gen) st ps)
     = ds_contentBlocks st @ concat (map partBlocks ps)"
  by (induction ps arbitrary: st) (simp_all add: decodePart_blocks)

lemma foldl_decodePart_text:
  "ds_textContent (foldl (decodePart gen) st ps) = ds_textContent st @ concat (map partText ps)"
  by (induction ps arbitrary: st) (simp_all add: decodePart_text)

lemma hasReasoning_partBlocks:
  "hasReasoning (concat (map partBlocks ps)) = (\<exists>p\<in>set ps. isReasoningPart p)"
  by (induction ps)
     (auto simp: hasReasoning_def partBlocks_def reasoningBlock_def textBlock_def)

lemma decoder_content:
  assumes "convertGoogleResponseToChatGeneration gen n r = Inr (g, n')"
  shows "message_content (gen_message g)
          = (if hasReasoning (concat (map partBlocks (responseParts r)))
             then Blocks (concat (map partBlocks (responseParts r)))
             else Str (gen_text g))"
    and "gen_text g = concat (map partText (responseParts r))"
  using assms
  by (auto simp: convertGoogleResponseToChatGeneration_def responseParts_def Let_def
        foldl_decodePart_blocks foldl_decodePart_text
        split: option.splits)

lemma decodeOutput_blocks:
  "is_contentBlocks (decodeOutput st x) = is_contentBlocks st @ outputBlocks x"
  by (cases x) (auto simp: Let_def split: option.splits)

lemma foldl_decodeOutput_blocks:
  "is_contentBlocks (foldl decodeOutput st xs) = is_contentBlocks st @ concat (map outputBlocks xs)"
  by (induction xs arbitrary: st) (simp_all add: decodeOutput_blocks)

lemma decodeOutput_text:
  "is_textContent (decodeOutput st x) = is_textContent st @ outputText x"
  by (cases x) (auto simp: Let_def outputText_def split: option.splits)

lemma foldl_decodeOutput_text:
  "is_textContent (foldl decodeOutput st xs) = is_textContent st @ concat (map outputText xs)"
  by (induction xs arbitrary: st) (simp_all add: decodeOutput_text)

lemma no_blocks_no_text:
  "concat (map outputBlocks xs) = [] \<Longrightarrow> concat (map outputText xs) = []"
proof (induction xs)
  case Nil
  then show ?case by simp
next
  case (Cons x xs)
  then show ?case by (cases x) (auto simp: outputText_def)
qed

lemma interaction_generation:
  "\<exists>tcs md us.
     convertInteractionToChatGeneration r u =
       [\<lparr>gen_text = concat (map outputText (interactionOutputs r)),
         gen_message = AIMessage
           (let bs = concat (map outputBlocks (interactionOutputs r));
                txt = concat (map outputText (interactionOutputs r))
            in if (\<forall>b\<in>set bs. block_type b = ''text'') \<and> txt \<noteq> [] then Str txt
               else if bs \<noteq> [] then Blocks bs else Str txt) tcs md,
         gen_usage_metadata = us, gen_finishReason = int_status r, gen_index = None\<rparr>]"
  unfolding convertInteractionToChatGeneration_def interactionOutputs_def[symmetric] Let_def
  by (simp add: foldl_decodeOutput_blocks foldl_decodeOutput_text list_all_iff)

lemma interaction_content:
  "\<exists>g. convertInteractionToChatGeneration r u = [g] \<and>
     (let bs = concat (map outputBlocks (interactionOutputs r)) in
      ((\<exists>b\<in>set bs. block_type b \<noteq> ''text'') \<longrightarrow> message_content (gen_message g) = Blocks bs)
    \<and> ((\<forall>b\<in>set bs. block_type b = ''text'') \<and> gen_text g \<noteq> [] \<longrightarrow>
          message_content (gen_message g) = Str (gen_text g))
    \<and> (bs = [] \<longrightarrow> message_content (gen_message g) = Str []))"
proof -
  from interaction_generation[of r u] obtain tcs md us where
    g: "convertInteractionToChatGeneration r u =
       [\<lparr>gen_text = concat (map outputText (interactionOutputs r)),
         gen_message = AIMessage
           (let bs = concat (map outputBlocks (interactionOutputs r));
                txt = concat (map outputText (interactionOutputs r))
            in if (\<forall>b\<in>set bs. block_type b = ''text'') \<and> txt \<noteq> [] then Str txt
               else if bs \<noteq> [] then Blocks bs else Str txt) tcs md,
         gen_usage_metadata = us, gen_finishReason = int_status r, gen_index = None\<rparr>]"
    by blast
  show ?thesis
    unfolding g using no_blocks_no_text[of "interactionOutputs r"]
    by (auto simp: Let_def)
qed

text \<open>
  C7, as stated, fails on the interactions decoder: an interaction whose only output is
  an image produces no reasoning block, and its content is a block sequence, not a string.
\<close>

theorem image_only_interaction_counterexample:
  "map (message_content \<circ> gen_message)
     (convertInteractionToChatGeneration
        \<lparr>int_outputs = Some [ImageContent (Some ''QUJD'') (Some ''image/png'') None],
         int_id = None, int_status = None, int_model = None, int_usage = None\<rparr> None)
   = [Blocks [imageBlock ''data:image/png;base64,QUJD'']]
 \<and> \<not> hasReasoning [imageBlock ''data:image/png;base64,QUJD'']"
  by (simp add: convertInteractionToChatGeneration_def templateString_def hasReasoning_def
        imageBlock_def)

text \<open>
  C7, amended. Standard decoder: the content of the decoded message is the plain string of
  the message text exactly when the parts produced no reasoning block (no thought-marked
  part with text), and is otherwise the full sequence of the blocks of the parts.
  Interactions decoder: the content is the full block sequence as soon as one block is
  not a text block (an image or a reasoning block); it is the plain string of the message
  text when every block is a text block and that text is not empty, and the empty string
  when there is no block.
\<close>

theorem decoded_content_shape:
  "(convertGoogleResponseToChatGeneration gen n r = Inr (g, n') \<longrightarrow>
      (let bs = concat (map partBlocks (responseParts r)) in
         message_content (gen_message g) = (if hasReasoning bs then Blocks bs else Str (gen_text g))
       \<and> (hasReasoning bs \<longleftrightarrow> (\<exists>p\<in>set (responseParts r). isReasoningPart p))
       \<and> gen_text g = concat (map partText (responseParts r))))
 \<and> (\<exists>g'. convertInteractionToChatGeneration i u = [g'] \<and>
      (let bs = concat (map outputBlocks (interactionOutputs i)) in
         ((\<exists>b\<in>set bs. block_type b \<noteq> ''text'') \<longrightarrow> message_content (gen_message g') = Blocks bs)
       \<and> ((\<forall>b\<in>set bs. block_type b = ''text'') \<and> gen_text g' \<noteq> [] \<longrightarrow>
             message_content (gen_message g') = Str (gen_text g'))
       \<and> (bs = [] \<longrightarrow> message_content (gen_message g') = Str [])))"
  using decoder_content[of gen n r g n'] hasReasoning_partBlocks[of "responseParts r"]
    interaction_content[of i u]
  by (simp add: Let_def)

theorem decoded_content_shape_witness:
  "(\<exists>g n'. convertGoogleResponseToChatGeneration (\<lambda>k. ''generated'') 0
       \<lparr>resp_candidates = Some [\<lparr>cand_content = Some (Some
            [empty_part\<lparr>part_text := Some ''think'', part_thought := Some True\<rparr>,
             empty_part\<lparr>part_text := Some ''hi''\<rparr>]),
          cand_finishReason = Some ''STOP'', cand_index = Some 0\<rparr>],
        resp_usageMetadata = None, resp_promptFeedback = None\<rparr> = Inr (g, n')
     \<and> message_content (gen_message g)
         = Blocks [reasoningBlock ''think'' None, textBlock ''hi''])
 \<and> (\<exists>g'. convertInteractionToChatGeneration
        \<lparr>int_outputs = Some [ImageContent (Some ''QUJD'') (Some ''image/png'') None],
         int_id = None, int_status = None, int_model = None, int_usage = None\<rparr> None = [g']
     \<and> message_content (gen_message g') = Blocks [imageBlock ''data:image/png;base64,QUJD''])"
proof -
  let ?r = "\<lparr>resp_candidates = Some [\<lparr>cand_content = Some (Some
            [empty_part\<lparr>part_text := Some ''think'', part_thought := Some True\<rparr>,
             empty_part\<lparr>part_text := Some ''hi''\<rparr>]),
          cand_finishReason = Some ''STOP'', cand_index = Some 0\<rparr>],
        resp_usageMetadata = None, resp_promptFeedback = None\<rparr>"
  let ?i = "\<lparr>int_outputs = Some [ImageContent (Some ''QUJD'') (Some ''image/png'') None],
         int_id = None, int_status = None, int_model = None, int_usage = None\<rparr>"
  obtain g n' where d: "convertGoogleResponseToChatGeneration (\<lambda>k. ''generated'') 0 ?r = Inr (g, n')"
    by (simp add: convertGoogleResponseToChatGeneration_def firstCandidate_def Let_def)
  have ps: "responseParts ?r = [empty_part\<lparr>part_text := Some ''think'', part_thought := Some True\<rparr>,
             empty_part\<lparr>part_text := Some ''hi''\<rparr>]"
    by (simp add: responseParts_def firstCandidate_def)
  have bs: "concat (map partBlocks (responseParts ?r)) = [reasoningBlock ''think'' None, textBlock ''hi'']"
    unfolding ps
    by (simp add: partBlocks_def isReasoningPart_def isTextPart_def truthyString_def
          truthyBool_def empty_part_def)
  have hr: "hasReasoning [reasoningBlock ''think'' None, textBlock ''hi'']"
    by (simp add: hasReasoning_def reasoningBlock_def)
  have os: "concat (map outputBlocks (interactionOutputs ?i)) = [imageBlock ''data:image/png;base64,QUJD'']"
    by (simp add: interactionOutputs_def templateString_def)
  have nt: "\<exists>b\<in>set [imageBlock ''data:image/png;base64,QUJD'']. block_type b \<noteq> ''text''"
    by (simp add: imageBlock_def)
  note t = decoded_content_shape[of "\<lambda>k. ''generated''" 0 ?r g n' ?i None]
  from t d have a: "message_content (gen_message g)
         = Blocks [reasoningBlock ''think'' None, textBlock ''hi'']"
    unfolding Let_def bs using hr by simp
  from t obtain g' where b: "convertInteractionToChatGeneration ?i None = [g']"
     "message_content (gen_message g') = Blocks [imageBlock ''data:image/png;base64,QUJD'']"
    unfolding Let_def os using nt by blast
  from d a b show ?thesis by blast
qed

section \<open>Identifiers of decoded function calls\<close>

lemma decodePart_toolCalls:
  "map tc_id (ds_toolCalls (decodePart gen st p))
     = map tc_id (ds_toolCalls st)
       @ map Some (assignIds gen (ds_uuid st) (map fc_id (functionCalls [p])))
   \<and> ds_uuid (decodePart gen st p)
     = ds_uuid st + length (filter (\<lambda>fc. fc_id fc = None) (functionCalls [p]))"
  by (auto simp: decodePart_def decodeMetadata_def decodeFunctionCall_def decodeText_def
        functionCalls_def List.map_filter_def uuidv4_def Let_def
        split: option.splits prod.splits)

lemma assignIds_append:
  "assignIds gen n (xs @ ys)
     = assignIds gen n xs @ assignIds gen (n + length (filter (\<lambda>x. x = None) xs)) ys"
  by (induction gen n xs rule: assignIds.induct) simp_all

lemma functionCalls_Cons: "functionCalls (p # ps) = functionCalls [p] @ functionCalls ps"
  by (simp add: functionCalls_def List.map_filter_def)

lemma foldl_decodePart_toolCalls:
  "map tc_id (ds_toolCalls (foldl (decodePart gen) st ps))
     = map tc_id (ds_toolCalls st)
       @ map Some (assignIds gen (ds_uuid st) (map fc_id (functionCalls ps)))
   \<and> ds_uuid (foldl (decodePart gen) st ps)
     = ds_uuid st + length (filter (\<lambda>fc. fc_id fc = None) (functionCalls ps))"
proof (induction ps arbitrary: st)
  case Nil
  then show ?case by (simp add: functionCalls_def List.map_filter_def)
next
  case (Cons p ps)
  have f: "length (filter (\<lambda>x. x = None) (map fc_id xs)) = length (filter (\<lambda>fc. fc_id fc = None) xs)" for xs
    by (induction xs) simp_all
  show ?case
    using Cons.IH[of "decodePart gen st p"] decodePart_toolCalls[of gen st p]
    by (simp add: functionCalls_Cons[of p ps] assignIds_append f comp_def)
qed

lemma decodeOutput_toolCalls:
  "map tc_id (is_toolCalls (decodeOutput st x))
     = map tc_id (is_toolCalls st) @ List.map_filter functionCallItemId [x]"
  by (cases x) (auto simp: Let_def List.map_filter_def split: option.splits)

lemma map_filter_Cons: "List.map_filter f (x # xs) = List.map_filter f [x] @ List.map_filter f xs"
  by (simp add: List.map_filter_def)

lemma foldl_decodeOutput_toolCalls:
  "map tc_id (is_toolCalls (foldl decodeOutput st xs))
     = map tc_id (is_toolCalls st) @ List.map_filter functionCallItemId xs"
proof (induction xs arbitrary: st)
  case Nil
  then show ?case by (simp add: List.map_filter_def)
next
  case (Cons x xs)
  show ?case
    using Cons.IH[of "decodeOutput st x"] decodeOutput_toolCalls[of st x]
    by (cases "functionCallItemId x") (simp_all add: List.map_filter_def)
qed

text \<open>
  C6, as stated, fails on the interactions decoder: a function-call item without an
  identifier is decoded to a tool call without an identifier; none is generated.
\<close>

theorem interactions_missing_id_counterexample:
  "map (map tc_id \<circ> message_tool_calls \<circ> gen_message)
     (convertInteractionToChatGeneration
        \<lparr>int_outputs = Some [FunctionCallContent None ''get_weather'' (JObj [])],
         int_id = None, int_status = None, int_model = None, int_usage = None\<rparr> None)
   = [ [None] ]"
  by (simp add: convertInteractionToChatGeneration_def)

text \<open>
  C6, amended. Standard full-response decoder: the tool calls carry, in the order of the
  function-call parts, the server's identifier where the part has one and otherwise the
  next identifier drawn from \<^verbatim>\<open>uuidv4\<close>, one draw for each part without an identifier.
  Standard stream decoder: the tool-call chunk of a function call carries the server's
  identifier, or otherwise a generated one. Interactions decoder: the tool call carries
  the identifier of the item as it is, absent when the item has none.
\<close>

theorem function_call_identifiers:
  "(convertGoogleResponseToChatGeneration gen n r = Inr (g, n') \<longrightarrow>
      map tc_id (message_tool_calls (gen_message g))
        = map Some (assignIds gen n (map fc_id (functionCalls (responseParts r))))
      \<and> n' = n + length (filter (\<lambda>fc. fc_id fc = None) (functionCalls (responseParts r))))
 \<and> tcc_id (fst (convertFunctionCallToToolCallChunk stringify gen n fc index))
      = Some (case fc_id fc of Some i \<Rightarrow> i | None \<Rightarrow> gen n)
 \<and> (part_text p = None \<and> part_functionCall p = Some fc \<longrightarrow>
      map tcc_id (ch_tool_call_chunks (fst (convertPartToChunk stringify gen n p index)))
        = [Some (case fc_id fc of Some i \<Rightarrow> i | None \<Rightarrow> gen n)])
 \<and> (\<exists>g'. convertInteractionToChatGeneration i u = [g']
      \<and> map tc_id (message_tool_calls (gen_message g'))
          = List.map_filter functionCallItemId (interactionOutputs i))"
proof -
  have a: "map tc_id (message_tool_calls (gen_message g))
        = map Some (assignIds gen n (map fc_id (functionCalls (responseParts r))))
      \<and> n' = n + length (filter (\<lambda>fc. fc_id fc = None) (functionCalls (responseParts r)))"
    if "convertGoogleResponseToChatGeneration gen n r = Inr (g, n')"
    using that
    by (auto simp: convertGoogleResponseToChatGeneration_def responseParts_def Let_def
          foldl_decodePart_toolCalls functionCalls_def List.map_filter_def
          split: option.splits)
  have b: "tcc_id (fst (convertFunctionCallToToolCallChunk stringify gen n fc index))
      = Some (case fc_id fc of Some i \<Rightarrow> i | None \<Rightarrow> gen n)"
    by (simp add: convertFunctionCallToToolCallChunk_def uuidv4_def split: option.splits)
  have c: "map tcc_id (ch_tool_call_chunks (fst (convertPartToChunk stringify gen n p index)))
        = [Some (case fc_id fc of Some i \<Rightarrow> i | None \<Rightarrow> gen n)]"
    if "part_text p = None" "part_functionCall p = Some fc"
    using that b
    by (simp add: convertPartToChunk_def Let_def split: prod.splits) (metis fst_conv)
  have d: "\<exists>g'. convertInteractionToChatGeneration i u = [g']
      \<and> map tc_id (message_tool_calls (gen_message g'))
          = List.map_filter functionCallItemId (interactionOutputs i)"
    unfolding convertInteractionToChatGeneration_def interactionOutputs_def[symmetric] Let_def
    by (simp add: foldl_decodeOutput_toolCalls)
  from a b c d show ?thesis by blast
qed

theorem function_call_identifiers_witness:
  "(\<exists>g n'. convertGoogleResponseToChatGeneration (\<lambda>k. if k = 0 then ''uuid-0'' else ''uuid-n'') 0
       \<lparr>resp_candidates = Some [\<lparr>cand_content = Some (Some
            [empty_part\<lparr>part_functionCall :=
               Some \<lparr>fc_name = Some ''f'', fc_args = None, fc_id = Some ''srv-1''\<rparr>\<rparr>,
             empty_part\<lparr>part_functionCall :=
               Some \<lparr>fc_name = Some ''g'', fc_args = None, fc_id = None\<rparr>\<rparr>]),
          cand_finishReason = None, cand_index = None\<rparr>],
        resp_usageMetadata = None, resp_promptFeedback = None\<rparr> = Inr (g, n')
     \<and> map tc_id (message_tool_calls (gen_message g)) = [Some ''srv-1'', Some ''uuid-0'']
     \<and> n' = 1)
 \<and> map tcc_id (ch_tool_call_chunks (fst (convertPartToChunk (\<lambda>j. ''{}'')
        (\<lambda>k. if k = 0 then ''uuid-0'' else ''uuid-n'') 0
        (empty_part\<lparr>part_functionCall :=
           Some \<lparr>fc_name = Some ''g'', fc_args = None, fc_id = None\<rparr>\<rparr>) 0)))
     = [Some ''uuid-0'']"
proof -
  let ?gen = "\<lambda>k::nat. if k = 0 then ''uuid-0'' else ''uuid-n''"
  let ?p1 = "empty_part\<lparr>part_functionCall :=
               Some \<lparr>fc_name = Some ''f'', fc_args = None, fc_id = Some ''srv-1''\<rparr>\<rparr>"
  let ?p2 = "empty_part\<lparr>part_functionCall :=
               Some \<lparr>fc_name = Some ''g'', fc_args = None, fc_id = None\<rparr>\<rparr>"
  let ?r = "\<lparr>resp_candidates = Some [\<lparr>cand_content = Some (Some [?p1, ?p2]),
          cand_finishReason = None, cand_index = None\<rparr>],
        resp_usageMetadata = None, resp_promptFeedback = None\<rparr>"
  obtain g n' where d: "convertGoogleResponseToChatGeneration ?gen 0 ?r = Inr (g, n')"
    by (simp add: convertGoogleResponseToChatGeneration_def firstCandidate_def Let_def)
  have fcs: "functionCalls (responseParts ?r)
      = [\<lparr>fc_name = Some ''f'', fc_args = None, fc_id = Some ''srv-1''\<rparr>,
         \<lparr>fc_name = Some ''g'', fc_args = None, fc_id = None\<rparr>]"
    by (simp add: responseParts_def firstCandidate_def functionCalls_def List.map_filter_def
          empty_part_def)
  note t = function_call_identifiers[of ?gen 0 ?r g n' "\<lambda>j. ''{}''"
      "\<lparr>fc_name = Some ''g'', fc_args = None, fc_id = None\<rparr>" 0 ?p2
      "\<lparr>int_outputs = None, int_id = None, int_status = None, int_model = None,
        int_usage = None\<rparr>" None]
  from t d have a: "map tc_id (message_tool_calls (gen_message g)) = [Some ''srv-1'', Some ''uuid-0'']"
    and b: "n' = 1"
    unfolding fcs by simp_all
  have p2: "part_text ?p2 = None \<and> part_functionCall ?p2
      = Some \<lparr>fc_name = Some ''g'', fc_args = None, fc_id = None\<rparr>"
    by (simp add: empty_part_def)
  from t p2 have c: "map tcc_id (ch_tool_call_chunks (fst (convertPartToChunk (\<lambda>j. ''{}'')
        ?gen 0 ?p2 0))) = [Some ''uuid-0'']"
    by simp
  from d a b have e: "\<exists>g n'. convertGoogleResponseToChatGeneration ?gen 0 ?r = Inr (g, n')
     \<and> map tc_id (message_tool_calls (gen_message g)) = [Some ''srv-1'', Some ''uuid-0'']
     \<and> n' = 1"
    by (intro exI conjI)
  from e c show ?thesis by (rule conjI)
qed

section \<open>Merging of consecutive entries of one role\<close>

lemma mergeIntoContents_roles:
  "distinct_adj (map wc_role cs) \<Longrightarrow> distinct_adj (map wc_role (mergeIntoContents cs role parts))"
proof (cases "cs \<noteq> [] \<and> wc_role (last cs) = role")
  case True
  assume d: "distinct_adj (map wc_role cs)"
  from True have cs: "cs = butlast cs @ [last cs]" by simp
  have "map wc_role cs = map wc_role (butlast cs) @ [wc_role (last cs)]"
    by (subst cs) simp
  moreover from True have "map wc_role (mergeIntoContents cs role parts)
      = map wc_role (butlast cs) @ [wc_role (last cs)]"
    by (simp add: mergeIntoContents_def)
  ultimately show ?thesis using d by simp
next
  case False
  assume d: "distinct_adj (map wc_role cs)"
  from False have "map wc_role (mergeIntoContents cs role parts) = map wc_role cs @ [role]"
    by (auto simp: mergeIntoContents_def)
  moreover from False d have "distinct_adj (map wc_role cs @ [role])"
    by (auto simp: distinct_adj_append_iff last_map)
  ultimately show ?thesis by simp
qed

lemma mergeIntoContents_parts:
  "concat (map taggedParts (mergeIntoContents cs role parts))
     = concat (map taggedParts cs) @ map (Pair role) parts"
proof (cases "cs \<noteq> [] \<and> wc_role (last cs) = role")
  case True
  then have cs: "cs = butlast cs @ [last cs]" by simp
  have "concat (map taggedParts (mergeIntoContents cs role parts))
      = concat (map taggedParts (butlast cs)) @ taggedParts (last cs) @ map (Pair role) parts"
    using True by (simp add: mergeIntoContents_def taggedParts_def)
  also have "\<dots> = concat (map taggedParts (butlast cs @ [last cs])) @ map (Pair role) parts"
    by simp
  finally show ?thesis using cs by simp
next
  case False
  then show ?thesis by (auto simp: mergeIntoContents_def taggedParts_def)
qed

lemma processChatMessages_merged:
  "processChatMessages cs ms = Inr cs' \<Longrightarrow> distinct_adj (map wc_role cs) \<Longrightarrow>
     distinct_adj (map wc_role cs') \<and>
     (\<exists>pss. mapResult messageParts ms = Inr pss \<and>
        concat (map taggedParts cs')
          = concat (map taggedParts cs)
            @ concat (map (\<lambda>(m, ps). map (Pair (messageRole m)) ps) (zip ms pss)))"
proof (induction ms arbitrary: cs)
  case Nil
  then show ?case by simp
next
  case (Cons m ms)
  from Cons.prems(1) obtain parts where p: "messageParts m = Inr parts"
    and r: "processChatMessages (mergeIntoContents cs (messageRole m) parts) ms = Inr cs'"
    by (auto split: sum.splits)
  from Cons.IH[OF r mergeIntoContents_roles[OF Cons.prems(2)]]
  obtain pss where d: "distinct_adj (map wc_role cs')"
    and m: "mapResult messageParts ms = Inr pss"
    and c: "concat (map taggedParts cs')
          = concat (map taggedParts (mergeIntoContents cs (messageRole m) parts))
            @ concat (map (\<lambda>(m, ps). map (Pair (messageRole m)) ps) (zip ms pss))"
    by blast
  have "mapResult messageParts (m # ms) = Inr (parts # pss)" using p m by simp
  moreover have "concat (map taggedParts cs')
          = concat (map taggedParts cs)
            @ concat (map (\<lambda>(m, ps). map (Pair (messageRole m)) ps) (zip (m # ms) (parts # pss)))"
    using c by (simp add: mergeIntoContents_parts)
  ultimately show ?case using d by blast
qed

lemma turn_of_nonsystem:
  "\<not> isSystemMessage m \<Longrightarrow> convertMessageToGoogleTurn parse m \<noteq> Inr None"
  by (cases m) (auto simp: Let_def split: sum.splits)

lemma interactionLoop_turns:
  "interactionLoop parse inp si ms = Inr pl \<Longrightarrow>
     map (\<lambda>t. Inr (Some t)) (input pl)
       = map (\<lambda>t. Inr (Some t)) inp
         @ map (convertMessageToGoogleTurn parse) (filter (\<lambda>m. \<not> isSystemMessage m) ms)"
proof (induction ms arbitrary: inp si)
  case Nil
  then show ?case by auto
next
  case (Cons m ms)
  show ?case
  proof (cases "isSystemMessage m")
    case True
    with Cons.prems have "\<exists>si'. interactionLoop parse inp si' ms = Inr pl"
      by (auto simp: Let_def split: if_splits)
    then obtain si' where "interactionLoop parse inp si' ms = Inr pl" by blast
    from Cons.IH[OF this] True show ?thesis by simp
  next
    case False
    with Cons.prems turn_of_nonsystem[OF False, of parse]
    obtain t where t: "convertMessageToGoogleTurn parse m = Inr (Some t)"
      and r: "interactionLoop parse (inp @ [t]) si ms = Inr pl"
      by (auto split: sum.splits option.splits)
    from Cons.IH[OF r] False t show ?thesis by simp
  qed
qed

text \<open>
  C3, as stated, fails on the interactions assembler: two consecutive human messages give
  two turns of role \<^verbatim>\<open>user\<close>.
\<close>

theorem interactions_no_merge_counterexample:
  "convertMessagesToGoogleInteractionPayload (\<lambda>s. None)
     [HumanMessage (Str ''a''), HumanMessage (Str ''b'')]
   = Inr \<lparr>input = [\<lparr>turn_role = ''user'', turn_content = [TextContent (Some ''a'')]\<rparr>,
                    \<lparr>turn_role = ''user'', turn_content = [TextContent (Some ''b'')]\<rparr>],
           system_instruction = None\<rparr>"
  by (simp add: convertMessagesToGoogleInteractionPayload_def)

text \<open>
  C3, amended. Standard assembler: no two adjacent entries of \<^verbatim>\<open>contents\<close> have the same
  role, and the parts of the entries, read in order with the role of their entry, are the
  parts of the non-system messages in order, each with the role of its message; so
  consecutive messages of one role share one entry, whose parts are theirs in order.
  Interactions assembler: the turns are the turns of the non-system messages, one turn
  for each message, in order; nothing is merged.
\<close>

theorem role_merging:
  "(convertMessagesToGooglePayload ms = Inr pl \<longrightarrow>
      distinct_adj (map wc_role (contents pl))
    \<and> (\<exists>pss. mapResult messageParts (filter (\<lambda>m. \<not> isSystemMessage m) ms) = Inr pss
          \<and> concat (map taggedParts (contents pl))
              = concat (map (\<lambda>(m, ps). map (Pair (messageRole m)) ps)
                         (zip (filter (\<lambda>m. \<not> isSystemMessage m) ms) pss))))
 \<and> (convertMessagesToGoogleInteractionPayload parse ms = Inr ipl \<longrightarrow>
      map (\<lambda>t. Inr (Some t)) (input ipl)
        = map (convertMessageToGoogleTurn parse) (filter (\<lambda>m. \<not> isSystemMessage m) ms))"
proof -
  have a: "distinct_adj (map wc_role (contents pl))
    \<and> (\<exists>pss. mapResult messageParts (filter (\<lambda>m. \<not> isSystemMessage m) ms) = Inr pss
          \<and> concat (map taggedParts (contents pl))
              = concat (map (\<lambda>(m, ps). map (Pair (messageRole m)) ps)
                         (zip (filter (\<lambda>m. \<not> isSystemMessage m) ms) pss)))"
    if "convertMessagesToGooglePayload ms = Inr pl"
  proof -
    from that have "processChatMessages [] (filter (\<lambda>m. \<not> isSystemMessage m) ms) = Inr (contents pl)"
      by (auto simp: convertMessagesToGooglePayload_def split: sum.splits)
    from processChatMessages_merged[OF this] show ?thesis by simp
  qed
  have b: "map (\<lambda>t. Inr (Some t)) (input ipl)
        = map (convertMessageToGoogleTurn parse) (filter (\<lambda>m. \<not> isSystemMessage m) ms)"
    if "convertMessagesToGoogleInteractionPayload parse ms = Inr ipl"
    using interactionLoop_turns[of parse "[]" None ms ipl] that
    by (simp add: convertMessagesToGoogleInteractionPayload_def)
  from a b show ?thesis by blast
qed

theorem role_merging_witness:
  "(\<exists>pl. convertMessagesToGooglePayload [HumanMessage (Str ''a''), HumanMessage (Str ''b'')] = Inr pl
      \<and> contents pl = [\<lparr>wc_role = ''user'',
            wc_parts = [empty_part\<lparr>part_text := Some ''a''\<rparr>, empty_part\<lparr>part_text := Some ''b''\<rparr>]\<rparr>]
      \<and> distinct_adj (map wc_role (contents pl)))
 \<and> (\<exists>ipl. convertMessagesToGoogleInteractionPayload (\<lambda>s. None)
              [HumanMessage (Str ''a''), HumanMessage (Str ''b'')] = Inr ipl
      \<and> length (input ipl) = 2)"
proof -
  let ?ms = "[HumanMessage (Str ''a''), HumanMessage (Str ''b'')]"
  obtain pl where pl: "convertMessagesToGooglePayload ?ms = Inr pl"
    and c: "contents pl = [\<lparr>wc_role = ''user'',
            wc_parts = [empty_part\<lparr>part_text := Some ''a''\<rparr>, empty_part\<lparr>part_text := Some ''b''\<rparr>]\<rparr>]"
    by (simp add: convertMessagesToGooglePayload_def mergeIntoContents_def messageRole_def)
  obtain ipl where ipl: "convertMessagesToGoogleInteractionPayload (\<lambda>s. None) ?ms = Inr ipl"
    by (simp add: convertMessagesToGoogleInteractionPayload_def)
  note th = role_merging[of ?ms pl "\<lambda>s. None" ipl]
  from th pl have d: "distinct_adj (map wc_role (contents pl))" by blast
  from th ipl have "map (\<lambda>t. Inr (Some t)) (input ipl)
        = map (convertMessageToGoogleTurn (\<lambda>s. None)) (filter (\<lambda>m. \<not> isSystemMessage m) ?ms)"
    by blast
  then have "length (map (\<lambda>t. Inr (Some t) :: error + turn option) (input ipl))
        = length (map (convertMessageToGoogleTurn (\<lambda>s. None)) (filter (\<lambda>m. \<not> isSystemMessage m) ?ms))"
    by (rule arg_cong)
  then have l: "length (input ipl) = 2" by simp
  from pl c d ipl l show ?thesis by blast
qed

section \<open>Reinjection of the thought signature\<close>

lemma mapResult_member:
  "mapResult f xs = Inr ys \<Longrightarrow> x \<in> set xs \<Longrightarrow>
     \<exists>y pre post. f x = Inr y \<and> concat ys = pre @ y @ post"
proof (induction xs arbitrary: ys)
  case Nil
  then show ?case by simp
next
  case (Cons a xs)
  from Cons.prems(1) obtain b bs where b: "f a = Inr b" and bs: "mapResult f xs = Inr bs"
    and ys: "ys = b # bs"
    by (auto split: sum.splits)
  show ?case
  proof (cases "x = a")
    case True
    with b ys have "f x = Inr b \<and> concat ys = [] @ b @ concat bs" by simp
    then show ?thesis by blast
  next
    case False
    with Cons.prems(2) have "x \<in> set xs" by simp
    from Cons.IH[OF bs this] obtain y pre post where "f x = Inr y" "concat bs = pre @ y @ post"
      by blast
    with ys have "f x = Inr y \<and> concat ys = (b @ pre) @ y @ post" by simp
    then show ?thesis by blast
  qed
qed

lemma concat_tagged_untag:
  "concat (map taggedParts cs) = concat (map (\<lambda>(m, ps). map (Pair (messageRole m)) ps) (zip ms pss))
   \<Longrightarrow> length pss = length ms
   \<Longrightarrow> concat (map wc_parts cs) = concat pss"
proof -
  assume a: "concat (map taggedParts cs) = concat (map (\<lambda>(m, ps). map (Pair (messageRole m)) ps) (zip ms pss))"
    and l: "length pss = length ms"
  have 1: "map snd (concat (map taggedParts cs)) = concat (map wc_parts cs)"
    by (induction cs) (simp_all add: taggedParts_def comp_def)
  have 2: "map snd (concat (map (\<lambda>(m, ps). map (Pair (messageRole m)) ps) (zip ms pss))) = concat pss"
    using l by (induction ms pss rule: list_induct2') (simp_all add: comp_def)
  from a 1 2 show ?thesis by simp
qed

lemma mapResult_length: "mapResult f xs = Inr ys \<Longrightarrow> length ys = length xs"
  by (induction xs arbitrary: ys) (auto split: sum.splits)


lemma reinject_without_signature:
  "reinjectThoughtSignature (md(''thoughtSignature'' := None)) ps = ps"
  by (simp add: reinjectThoughtSignature_def)

lemma standard_signature:
  assumes sig: "md ''thoughtSignature'' = Some (JStr s)"
    and ps: "messageParts (AIMessage c tcs md) = Inr ps"
  shows "\<exists>ps0. messageParts (AIMessage c tcs (md(''thoughtSignature'' := None))) = Inr ps0
          \<and> ps = (if ps0 = []
                  then [empty_part\<lparr>part_text := Some [], part_thoughtSignature := Some s\<rparr>]
                  else butlast ps0 @ [(last ps0)\<lparr>part_thoughtSignature := Some s\<rparr>])"
proof -
  from ps obtain cps where c: "convertContentToParts c = Inr cps"
    and p: "ps = reinjectThoughtSignature md (cps @ map convertToolCallToPart tcs)"
    by (auto split: sum.splits)
  have "messageParts (AIMessage c tcs (md(''thoughtSignature'' := None)))
      = Inr (cps @ map convertToolCallToPart tcs)"
    using c by (simp add: reinject_without_signature)
  moreover have "ps = (if cps @ map convertToolCallToPart tcs = []
                  then [empty_part\<lparr>part_text := Some [], part_thoughtSignature := Some s\<rparr>]
                  else butlast (cps @ map convertToolCallToPart tcs)
                       @ [(last (cps @ map convertToolCallToPart tcs))\<lparr>part_thoughtSignature := Some s\<rparr>])"
    unfolding p using sig by (simp add: reinjectThoughtSignature_def)
  ultimately show ?thesis by blast
qed

lemma payload_holds_message_parts:
  assumes "convertMessagesToGooglePayload ms = Inr pl"
    and "m \<in> set ms" and "\<not> isSystemMessage m"
  shows "\<exists>ps pre post. messageParts m = Inr ps
           \<and> concat (map wc_parts (contents pl)) = pre @ ps @ post"
proof -
  let ?ms = "filter (\<lambda>m. \<not> isSystemMessage m) ms"
  from assms(1) have "processChatMessages [] ?ms = Inr (contents pl)"
    by (auto simp: convertMessagesToGooglePayload_def split: sum.splits)
  from processChatMessages_merged[OF this] obtain pss where
    m: "mapResult messageParts ?ms = Inr pss"
    and c: "concat (map taggedParts (contents pl))
              = concat (map (\<lambda>(m, ps). map (Pair (messageRole m)) ps) (zip ?ms pss))"
    by auto
  from concat_tagged_untag[OF c mapResult_length[OF m]]
  have u: "concat (map wc_parts (contents pl)) = concat pss" .
  from assms(2,3) have "m \<in> set ?ms" by simp
  from mapResult_member[OF m this] u show ?thesis by metis
qed

lemma interactions_signature:
  assumes sig: "md ''thought_signature'' = Some (JStr s)"
    and t: "convertMessageToGoogleTurn parse (AIMessage c tcs md) = Inr (Some t)"
  shows "\<exists>rest. turn_content t = ThoughtContent (Some s) None # rest
          \<and> convertMessageToGoogleTurn parse (AIMessage c tcs (md(''thought_signature'' := None)))
              = Inr (Some (t\<lparr>turn_content := rest\<rparr>))"
  using assms by (auto simp: Let_def split: sum.splits content.splits)

text \<open>
  C1, as stated, fails on the interactions encoder: the signature of an AI message with
  text is on a thought item at the head of the turn, and the last item, the text, bears
  none.
\<close>

theorem interactions_signature_first_counterexample:
  "convertMessageToGoogleTurn (\<lambda>s. None)
     (AIMessage (Str ''hi'') [] [''thought_signature'' \<mapsto> JStr ''S''])
   = Inr (Some \<lparr>turn_role = ''model'',
                 turn_content = [ThoughtContent (Some ''S'') None, TextContent (Some ''hi'')]\<rparr>)"
  by simp

text \<open>
  C1, amended. Standard encoder, AI message with a string under \<^verbatim>\<open>thoughtSignature\<close>:
  the parts built for the message are those built without the signature, with the
  signature set on the last of them, or, when there is none, the single part with empty
  text and the signature; these parts stand, in this order, in the \<^verbatim>\<open>contents\<close> of every
  payload encoded from a message list that holds the message. Interactions encoder, AI
  message with a string under \<^verbatim>\<open>thought_signature\<close>: the turn is the turn of the message
  without the signature, with a thought item bearing the signature put in front.
\<close>

theorem signature_reinjection:
  "(md ''thoughtSignature'' = Some (JStr s) \<and> messageParts (AIMessage c tcs md) = Inr ps \<longrightarrow>
      ps \<noteq> [] \<and> part_thoughtSignature (last ps) = Some s
    \<and> (\<exists>ps0. messageParts (AIMessage c tcs (md(''thoughtSignature'' := None))) = Inr ps0
          \<and> ps = (if ps0 = []
                  then [empty_part\<lparr>part_text := Some [], part_thoughtSignature := Some s\<rparr>]
                  else butlast ps0 @ [(last ps0)\<lparr>part_thoughtSignature := Some s\<rparr>]))
    \<and> (\<forall>ms pl. AIMessage c tcs md \<in> set ms \<and> convertMessagesToGooglePayload ms = Inr pl \<longrightarrow>
          (\<exists>pre post. concat (map wc_parts (contents pl)) = pre @ ps @ post)))
 \<and> (md ''thought_signature'' = Some (JStr s)
      \<and> convertMessageToGoogleTurn parse (AIMessage c tcs md) = Inr (Some t) \<longrightarrow>
      (\<exists>rest. turn_content t = ThoughtContent (Some s) None # rest
          \<and> convertMessageToGoogleTurn parse (AIMessage c tcs (md(''thought_signature'' := None)))
              = Inr (Some (t\<lparr>turn_content := rest\<rparr>))))"
proof -
  have a: "ps \<noteq> [] \<and> part_thoughtSignature (last ps) = Some s
    \<and> (\<exists>ps0. messageParts (AIMessage c tcs (md(''thoughtSignature'' := None))) = Inr ps0
          \<and> ps = (if ps0 = []
                  then [empty_part\<lparr>part_text := Some [], part_thoughtSignature := Some s\<rparr>]
                  else butlast ps0 @ [(last ps0)\<lparr>part_thoughtSignature := Some s\<rparr>]))"
    if "md ''thoughtSignature'' = Some (JStr s)" "messageParts (AIMessage c tcs md) = Inr ps"
  proof -
    from standard_signature[OF that] obtain ps0 where
      p: "messageParts (AIMessage c tcs (md(''thoughtSignature'' := None))) = Inr ps0"
         "ps = (if ps0 = []
                  then [empty_part\<lparr>part_text := Some [], part_thoughtSignature := Some s\<rparr>]
                  else butlast ps0 @ [(last ps0)\<lparr>part_thoughtSignature := Some s\<rparr>])"
      by blast
    from p(2) have "ps \<noteq> []" "part_thoughtSignature (last ps) = Some s"
      by (simp_all split: if_splits)
    with p show ?thesis by blast
  qed
  have b: "\<exists>pre post. concat (map wc_parts (contents pl)) = pre @ ps @ post"
    if "messageParts (AIMessage c tcs md) = Inr ps" "AIMessage c tcs md \<in> set ms"
      "convertMessagesToGooglePayload ms = Inr pl" for ms pl
    using payload_holds_message_parts[OF that(3,2)] that(1) by auto
  from a b interactions_signature[of md s parse c tcs t] show ?thesis by blast
qed

theorem signature_reinjection_witness:
  "(\<exists>ps. messageParts (AIMessage (Str []) []
             [''thoughtSignature'' \<mapsto> JStr ''S'', ''thought_signature'' \<mapsto> JStr ''S'']) = Inr ps
      \<and> ps = [empty_part\<lparr>part_text := Some [], part_thoughtSignature := Some ''S''\<rparr>])
 \<and> (\<exists>t rest. convertMessageToGoogleTurn (\<lambda>s. None) (AIMessage (Str []) []
             [''thoughtSignature'' \<mapsto> JStr ''S'', ''thought_signature'' \<mapsto> JStr ''S''])
          = Inr (Some t)
      \<and> turn_content t = ThoughtContent (Some ''S'') None # rest)"
proof -
  let ?md = "[''thoughtSignature'' \<mapsto> JStr ''S'', ''thought_signature'' \<mapsto> JStr ''S'']"
  let ?m = "AIMessage (Str []) [] ?md"
  obtain ps where ps: "messageParts ?m = Inr ps" by simp
  obtain t where t: "convertMessageToGoogleTurn (\<lambda>s. None) ?m = Inr (Some t)" by simp
  have s1: "?md ''thoughtSignature'' = Some (JStr ''S'')" by simp
  have s2: "?md ''thought_signature'' = Some (JStr ''S'')" by simp
  have p0: "messageParts (AIMessage (Str []) [] (?md(''thoughtSignature'' := None))) = Inr []"
    by (simp add: reinjectThoughtSignature_def)
  note th = signature_reinjection[of ?md "''S''" "Str []" "[]" ps "\<lambda>s. None" t]
  from th s1 ps p0 have a: "ps = [empty_part\<lparr>part_text := Some [], part_thoughtSignature := Some ''S''\<rparr>]"
    by auto
  from th s2 t obtain rest where b: "turn_content t = ThoughtContent (Some ''S'') None # rest"
    by blast
  from ps a t b show ?thesis by blast
qed

text \<open>
  The example of the specification: an AI message without text, with one tool call and a
  signature, between a human message and the tool result.
\<close>

lemma signature_carry_through_example:
  "map_sum id contents
     (convertMessagesToGooglePayload
        [HumanMessage (Str ''weather?''),
         AIMessage (Str [])
           [\<lparr>tc_name = ''get_weather'', tc_args = JObj [], tc_id = Some ''call-1''\<rparr>]
           [''thoughtSignature'' \<mapsto> JStr ''S''],
         ToolMessage (Str ''sunny'') (Some ''get_weather'') ''call-1'' None])
   = Inr [\<lparr>wc_role = ''user'', wc_parts = [empty_part\<lparr>part_text := Some ''weather?''\<rparr>]\<rparr>,
          \<lparr>wc_role = ''model'', wc_parts =
             [empty_part\<lparr>part_functionCall :=
                  Some \<lparr>fc_name = Some ''get_weather'', fc_args = Some (JObj []), fc_id = None\<rparr>,
                part_thoughtSignature := Some ''S''\<rparr>]\<rparr>,
          \<lparr>wc_role = ''user'', wc_parts =
             [empty_part\<lparr>part_text := Some ''sunny''\<rparr>,
              empty_part\<lparr>part_functionResponse :=
                  Some \<lparr>fr_name = ''get_weather'', fr_response_name = Some ''get_weather'',
                        fr_response_content = Str ''sunny''\<rparr>\<rparr>]\<rparr>]"
  by (simp add: convertMessagesToGooglePayload_def mergeIntoContents_def messageRole_def
        reinjectThoughtSignature_def convertToolCallToPart_def convertToolMessageToPart_def
        empty_part_def)

section \<open>Streamed and unsplit responses\<close>

lemma chunkText_appendBlock:
  "chunkText (Blocks (appendBlock bs b)) = chunkText (Blocks bs) @ chunkText (Blocks [b])"
proof (cases "bs \<noteq> [] \<and> sameKind (last bs) b")
  case True
  then have bs: "bs = butlast bs @ [last bs]" by simp
  have m: "chunkText (Blocks [mergeBlocks (last bs) b])
      = chunkText (Blocks [last bs]) @ chunkText (Blocks [b])"
    using True
    by (auto simp: sameKind_def mergeBlocks_def appendOpt_def split: option.splits)
  have "chunkText (Blocks (appendBlock bs b))
      = chunkText (Blocks (butlast bs)) @ chunkText (Blocks [mergeBlocks (last bs) b])"
    using True by (simp add: appendBlock_def)
  also have "\<dots> = chunkText (Blocks (butlast bs)) @ chunkText (Blocks [last bs]) @ chunkText (Blocks [b])"
    by (simp only: m)
  also have "\<dots> = chunkText (Blocks (butlast bs @ [last bs])) @ chunkText (Blocks [b])"
    by simp
  finally show ?thesis using bs by simp
next
  case False
  then show ?thesis by (auto simp: appendBlock_def)
qed

lemma chunkText_foldl:
  "chunkText (Blocks (foldl appendBlock as bs)) = chunkText (Blocks as) @ chunkText (Blocks bs)"
proof (induction bs arbitrary: as)
  case Nil
  then show ?case by simp
next
  case (Cons b bs)
  have "chunkText (Blocks (foldl appendBlock as (b # bs)))
      = chunkText (Blocks (appendBlock as b)) @ chunkText (Blocks bs)"
    using Cons.IH[of "appendBlock as b"] by simp
  also have "\<dots> = chunkText (Blocks as) @ chunkText (Blocks [b]) @ chunkText (Blocks bs)"
    by (simp only: chunkText_appendBlock append_assoc)
  finally show ?case by auto
qed

lemma chunkText_concatContent:
  "chunkText (concatContent a b) = chunkText a @ chunkText b"
proof (cases a)
  case (Str s)
  show ?thesis
  proof (cases b)
    case (Str t)
    with \<open>a = Str s\<close> show ?thesis by simp
  next
    case (Blocks bs)
    with \<open>a = Str s\<close> chunkText_foldl[of "[textBlock s]" bs] show ?thesis
      by (simp add: textBlock_def)
  qed
next
  case (Blocks as)
  show ?thesis
  proof (cases b)
    case (Str t)
    with \<open>a = Blocks as\<close> chunkText_appendBlock[of as "textBlock t"] show ?thesis
      by (simp add: textBlock_def)
  next
    case (Blocks bs)
    with \<open>a = Blocks as\<close> chunkText_foldl[of as bs] show ?thesis by simp
  qed
qed

lemma normalForm_append: "normalForm (xs @ zs) = foldl addSegment (normalForm xs) zs"
  by (simp add: normalForm_def)

lemma addSegment_split:
  "joinable k k \<Longrightarrow> addSegment acc (k, s @ t) = addSegment (addSegment acc (k, s)) (k, t)"
  by (auto simp: addSegment_def joinable_def)

lemma segment_mergeBlocks:
  "sameKind a b \<Longrightarrow> segment (mergeBlocks a b) = (block_type a, snd (segment a) @ snd (segment b))"
  by (auto simp: sameKind_def mergeBlocks_def segment_def appendOpt_def optString_def
        split: option.splits)

lemma normalForm_appendBlock:
  "normalForm (map segment (appendBlock bs b)) = addSegment (normalForm (map segment bs)) (segment b)"
proof (cases "bs \<noteq> [] \<and> sameKind (last bs) b")
  case True
  then have bs: "bs = butlast bs @ [last bs]" by simp
  let ?k = "block_type (last bs)"
  from True have j: "joinable ?k ?k" by (auto simp: sameKind_def joinable_def)
  from True have sb: "segment b = (?k, snd (segment b))"
    by (auto simp: sameKind_def segment_def)
  have sl: "segment (last bs) = (?k, snd (segment (last bs)))"
    by (auto simp: segment_def)
  have "normalForm (map segment (appendBlock bs b))
      = normalForm (map segment (butlast bs) @ [segment (mergeBlocks (last bs) b)])"
    using True by (simp add: appendBlock_def)
  also have "\<dots> = addSegment (normalForm (map segment (butlast bs)))
                      (?k, snd (segment (last bs)) @ snd (segment b))"
    using True by (simp add: normalForm_append segment_mergeBlocks)
  also have "\<dots> = addSegment (addSegment (normalForm (map segment (butlast bs)))
                      (?k, snd (segment (last bs)))) (?k, snd (segment b))"
    by (rule addSegment_split[OF j])
  also have "\<dots> = addSegment (normalForm (map segment (butlast bs) @ [segment (last bs)])) (segment b)"
    using sb sl by (simp add: normalForm_append)
  also have "map segment (butlast bs) @ [segment (last bs)] = map segment (butlast bs @ [last bs])"
    by simp
  finally show ?thesis using bs by simp
next
  case False
  then show ?thesis by (auto simp: appendBlock_def normalForm_append)
qed

lemma normalForm_foldl:
  "normalForm (map segment (foldl appendBlock as bs))
     = foldl addSegment (normalForm (map segment as)) (map segment bs)"
  by (induction bs arbitrary: as) (simp_all add: normalForm_appendBlock)

lemma normalForm_concatContent:
  "normalForm (segments (concatContent a b)) = foldl addSegment (normalForm (segments a)) (segments b)"
proof (cases a)
  case (Str s)
  show ?thesis
  proof (cases b)
    case (Str t)
    with \<open>a = Str s\<close> show ?thesis
      using addSegment_split[of "''text''" "[]" s t]
      by (simp add: normalForm_def joinable_def)
  next
    case (Blocks bs)
    with \<open>a = Str s\<close> normalForm_foldl[of "[textBlock s]" bs] show ?thesis
      by (simp add: textBlock_def segment_def optString_def normalForm_def addSegment_def)
  qed
next
  case (Blocks as)
  show ?thesis
  proof (cases b)
    case (Str t)
    with \<open>a = Blocks as\<close> normalForm_appendBlock[of as "textBlock t"] show ?thesis
      by (simp add: textBlock_def segment_def optString_def addSegment_def)
  next
    case (Blocks bs)
    with \<open>a = Blocks as\<close> normalForm_foldl[of as bs] show ?thesis by simp
  qed
qed


lemma part_chunk_facts:
  "chunkText (ch_content (fst (convertPartToChunk stringify gen n p index))) = partText p
 \<and> segments (ch_content (fst (convertPartToChunk stringify gen n p index))) = partSegments p
 \<and> ch_response_metadata (fst (convertPartToChunk stringify gen n p index)) ''thoughtSignature''
     = lastSignature None [p]"
  by (auto simp: convertPartToChunk_def Let_def partText_def isTextPart_def truthyString_def
        partSegments_def lastSignature_def reasoningBlock_def segment_def optString_def
        split: option.splits prod.splits)

lemma lastSignature_Cons:
  "lastSignature v (p # ps) = lastSignature (lastSignature v [p]) ps"
  by (simp add: lastSignature_def)

lemma lastSignature_single_None:
  "lastSignature v [p] = (case lastSignature None [p] of None \<Rightarrow> v | Some s \<Rightarrow> Some s)"
  by (simp add: lastSignature_def)

lemma concatChunk_facts:
  "chunkText (ch_content (concatChunk a b)) = chunkText (ch_content a) @ chunkText (ch_content b)
 \<and> normalForm (segments (ch_content (concatChunk a b)))
     = foldl addSegment (normalForm (segments (ch_content a))) (segments (ch_content b))
 \<and> ch_response_metadata (concatChunk a b) k
     = (case ch_response_metadata b k of None \<Rightarrow> ch_response_metadata a k | Some v \<Rightarrow> Some v)"
  by (simp add: concatChunk_def chunkText_concatContent normalForm_concatContent map_add_def)

lemma reduceParts_facts:
  "reduceParts concatChunk stringify gen acc n index ps = (res, n') \<Longrightarrow>
     accText res = accText acc @ concat (map partText ps)
   \<and> accSegments res = foldl addSegment (accSegments acc) (concat (map partSegments ps))
   \<and> accSignature res = lastSignature (accSignature acc) ps
   \<and> (res = None \<longleftrightarrow> acc = None \<and> ps = [])"
proof (induction ps arbitrary: acc n index)
  case Nil
  then show ?case by (simp add: lastSignature_def)
next
  case (Cons p ps)
  obtain nextChunk n1 where c: "convertPartToChunk stringify gen n p index = (nextChunk, n1)"
    by (cases "convertPartToChunk stringify gen n p index")
  let ?acc = "Some (case acc of None \<Rightarrow> nextChunk | Some a \<Rightarrow> concatChunk a nextChunk)"
  from Cons.prems c have r: "reduceParts concatChunk stringify gen ?acc n1 (Suc index) ps = (res, n')"
    by simp
  from part_chunk_facts[of stringify gen n p index] c
  have pc: "chunkText (ch_content nextChunk) = partText p"
    "segments (ch_content nextChunk) = partSegments p"
    "ch_response_metadata nextChunk ''thoughtSignature'' = lastSignature None [p]"
    by simp_all
  have t: "accText ?acc = accText acc @ partText p"
    using pc(1) by (cases acc) (simp_all add: accText_def concatChunk_facts)
  have s: "accSegments ?acc = foldl addSegment (accSegments acc) (partSegments p)"
  proof (cases acc)
    case None
    with pc(2) show ?thesis by (simp add: accSegments_def normalForm_def)
  next
    case (Some a)
    with pc(2) show ?thesis by (simp add: accSegments_def concatChunk_facts)
  qed
  have g: "accSignature ?acc = lastSignature (accSignature acc) [p]"
    using pc(3) lastSignature_single_None[of "accSignature acc" p]
    by (cases acc) (simp_all add: accSignature_def concatChunk_facts split: option.splits)
  from Cons.IH[OF r] t s g show ?case
    by (simp add: lastSignature_Cons[of _ p ps])
qed


lemma converter_facts:
  assumes "convertGoogleStreamChunkToLangChainChunk concatChunk stringify gen n r = (res, n')"
  shows "accGenText res = concat (map partText (responseParts r))
   \<and> accText (accMessage res) = concat (map partText (responseParts r))
   \<and> accSegments (accMessage res) = normalForm (concat (map partSegments (responseParts r)))
   \<and> accSignature (accMessage res) = lastSignature None (responseParts r)
   \<and> (res = None \<longrightarrow> responseParts r = [])"
proof (cases "firstCandidate r")
  case None
  with assms show ?thesis
    by (auto simp: convertGoogleStreamChunkToLangChainChunk_def responseParts_def accGenText_def
          accMessage_def accText_def accSegments_def accSignature_def normalForm_def
          lastSignature_def addSegment_def
          split: option.splits)
next
  case (Some c)
  show ?thesis
  proof (cases "cand_content c")
    case None
    with Some assms show ?thesis
      by (auto simp: convertGoogleStreamChunkToLangChainChunk_def responseParts_def accGenText_def
          accMessage_def accText_def accSegments_def accSignature_def normalForm_def
          lastSignature_def)
  next
    case (Some pso)
    note pso = this
    show ?thesis
    proof (cases pso)
      case None
      with pso \<open>firstCandidate r = Some c\<close> assms show ?thesis
        by (auto simp: convertGoogleStreamChunkToLangChainChunk_def responseParts_def accGenText_def
          accMessage_def accText_def accSegments_def accSignature_def normalForm_def
          lastSignature_def)
    next
      case (Some ps)
      with pso \<open>firstCandidate r = Some c\<close> have rp: "responseParts r = ps"
        by (simp add: responseParts_def)
      obtain red n1 where red: "reduceParts concatChunk stringify gen None n 0 ps = (red, n1)"
        by (cases "reduceParts concatChunk stringify gen None n 0 ps")
      from reduceParts_facts[OF red]
      have f: "accText red = concat (map partText ps)"
        "accSegments red = normalForm (concat (map partSegments ps))"
        "accSignature red = lastSignature None ps"
        "red = None \<longleftrightarrow> ps = []"
        by (simp_all add: accText_def accSegments_def accSignature_def normalForm_def)
      show ?thesis
      proof (cases red)
        case None
        with red Some pso \<open>firstCandidate r = Some c\<close> assms have "res = None"
          by (auto simp: convertGoogleStreamChunkToLangChainChunk_def)
        with None f rp show ?thesis
          by (simp add: accGenText_def accMessage_def accText_def accSegments_def
                accSignature_def normalForm_def lastSignature_def)
      next
        case (Some ch)
        let ?ch = "(case resp_usageMetadata r of
                      Some u \<Rightarrow> ch\<lparr>ch_usage_metadata := extractUsageMetadata (Some u)\<rparr>
                    | None \<Rightarrow> ch)"
        from Some red \<open>pso = Some ps\<close> pso \<open>firstCandidate r = Some c\<close> assms
        have res: "res = Some \<lparr>gc_message = ?ch, gc_text = chunkText (ch_content ?ch)\<rparr>"
          by (auto simp: convertGoogleStreamChunkToLangChainChunk_def Let_def)
        have same: "ch_content ?ch = ch_content ch"
          "ch_response_metadata ?ch = ch_response_metadata ch"
          by (simp_all split: option.splits)
        from f Some rp show ?thesis
          unfolding res
          by (simp add: accGenText_def accMessage_def accText_def accSegments_def
                accSignature_def same)
      qed
    qed
  qed
qed



















section \<open>The text of a stream chunk\<close>

lemma chunkText_without_reasoning:
  "chunkText (Blocks bs) = chunkText (Blocks (filter (\<lambda>b. block_type b \<noteq> ''reasoning'') bs))"
  by (induction bs) auto

lemma converter_text_of_content:
  "convertGoogleStreamChunkToLangChainChunk cc stringify gen n r = (Some g, n')
   \<Longrightarrow> gc_text g = chunkText (ch_content (gc_message g))"
  by (auto simp: convertGoogleStreamChunkToLangChainChunk_def Let_def
        split: option.splits prod.splits)

text \<open>
  C10. Whatever the concatenation of message chunks is, the text of the generation chunk
  that the stream converter yields is the text of its message's content: the content
  itself when it is a string, otherwise the texts of its text blocks, in order; the
  reasoning blocks of the content add nothing. The chunk that the converter makes of one
  part holds as text only the plain text of the part, nothing for a thought-marked part;
  and with the concatenation that the specification describes, the text of the generation
  chunk is the concatenation of the texts of the parts that are not thought-marked.
\<close>

theorem stream_chunk_text:
  "(convertGoogleStreamChunkToLangChainChunk cc stringify gen n r = (Some g, n') \<longrightarrow>
      gc_text g = chunkText (ch_content (gc_message g)))
 \<and> chunkText (Blocks bs) = chunkText (Blocks (filter (\<lambda>b. block_type b \<noteq> ''reasoning'') bs))
 \<and> chunkText (ch_content (fst (convertPartToChunk stringify gen n p index))) = partText p
 \<and> (truthyBool (part_thought p) \<longrightarrow> partText p = [])
 \<and> (convertGoogleStreamChunkToLangChainChunk concatChunk stringify gen n r = (Some g', n'') \<longrightarrow>
      gc_text g' = concat (map partText (responseParts r)))"
proof -
  have "gc_text g' = concat (map partText (responseParts r))"
    if "convertGoogleStreamChunkToLangChainChunk concatChunk stringify gen n r = (Some g', n'')"
    using converter_facts[OF that] by (simp add: accGenText_def)
  moreover have "truthyBool (part_thought p) \<longrightarrow> partText p = []"
    by (simp add: partText_def isTextPart_def)
  ultimately show ?thesis
    using converter_text_of_content[of cc stringify gen n r g n'] chunkText_without_reasoning[of bs]
      part_chunk_facts[of stringify gen n p index]
    by blast
qed

theorem stream_chunk_text_witness:
  "\<exists>g n'. convertGoogleStreamChunkToLangChainChunk concatChunk (\<lambda>j. ''{}'') (\<lambda>k. ''generated'') 0
       \<lparr>resp_candidates = Some [\<lparr>cand_content = Some (Some
            [empty_part\<lparr>part_text := Some ''think'', part_thought := Some True\<rparr>,
             empty_part\<lparr>part_text := Some ''hi''\<rparr>]),
           cand_finishReason = None, cand_index = None\<rparr>],
         resp_usageMetadata = None, resp_promptFeedback = None\<rparr> = (Some g, n')
     \<and> gc_text g = ''hi''
     \<and> gc_text g = chunkText (ch_content (gc_message g))
     \<and> partText (empty_part\<lparr>part_text := Some ''think'', part_thought := Some True\<rparr>) = []"
proof -
  let ?p = "empty_part\<lparr>part_text := Some ''think'', part_thought := Some True\<rparr>"
  let ?r = "\<lparr>resp_candidates = Some [\<lparr>cand_content = Some (Some
            [?p, empty_part\<lparr>part_text := Some ''hi''\<rparr>]),
           cand_finishReason = None, cand_index = None\<rparr>],
         resp_usageMetadata = None, resp_promptFeedback = None\<rparr>"
  obtain g n' where c: "convertGoogleStreamChunkToLangChainChunk concatChunk (\<lambda>j. ''{}'')
      (\<lambda>k. ''generated'') 0 ?r = (Some g, n')"
    by (simp add: convertGoogleStreamChunkToLangChainChunk_def firstCandidate_def
          convertPartToChunk_def Let_def empty_part_def truthyBool_def truthyString_def)
  have p: "concat (map partText (responseParts ?r)) = ''hi''"
    by (simp add: responseParts_def firstCandidate_def partText_def isTextPart_def
          truthyString_def truthyBool_def empty_part_def)
  have th: "truthyBool (part_thought ?p)" by (simp add: truthyBool_def empty_part_def)
  note t = stream_chunk_text[of concatChunk "\<lambda>j. ''{}''" "\<lambda>k. ''generated''" 0 ?r g n' "[]"
      ?p 0 g n']
  from t c have "gc_text g = concat (map partText (responseParts ?r))" by blast
  then have a: "gc_text g = ''hi''" by (simp only: p)
  from t c have b: "gc_text g = chunkText (ch_content (gc_message g))" by blast
  from t th have d: "partText ?p = []" by blast
  from c a b d show ?thesis by blast
qed

end
